theory Spec2Isabelle
  imports Complex_Main "HOL-Library.Char_ord" "HOL-Library.AList"
begin

section \<open>The JavaScript values and built-ins the transformers use\<close>

text \<open>
  Strings are character lists. Numbers carry the exact value of the decimal they were
  read from, together with the three non-finite values of the language; the rounding of
  binary floating point is not part of the model.
\<close>

datatype number = NaN | Num rat | PosInfinity | NegInfinity

datatype json =
    JNull
  | JBool bool
  | JNum number
  | JStr string
  | JArr "json list"
  | JObj "(string \<times> json) list"

text \<open>A thrown value: the constructor is the error class, the string its message.\<close>

datatype exn = Error string | TypeError string | SyntaxError string | Thrown string

text \<open>\<open>e instanceof Error ? e.message : "Unknown error"\<close>; \<open>Thrown\<close> is a value that is no Error.\<close>

fun errorMessage :: "exn \<Rightarrow> string" where
  "errorMessage (Error m) = m"
| "errorMessage (TypeError m) = m"
| "errorMessage (SyntaxError m) = m"
| "errorMessage (Thrown v) = ''Unknown error''"

text \<open>
  \<open>JSON.parse\<close> and \<open>JSON.stringify\<close> belong to the platform. Every function that calls
  them takes the platform as its first argument; \<open>None\<close> from \<open>JSON_parse\<close> is the
  thrown SyntaxError.
\<close>

record platform =
  JSON_parse :: "string \<Rightarrow> json option"
  JSON_stringify :: "json \<Rightarrow> string"

subsection \<open>Characters and strings\<close>

definition newline :: char where
  "newline = CHR 0x0A"

definition dquote :: char where
  "dquote = CHR 0x22"

text \<open>White space as \<open>String.prototype.trim\<close> and the numeric parsers see it.\<close>

definition isWhiteSpace :: "char \<Rightarrow> bool" where
  "isWhiteSpace c \<longleftrightarrow> c \<in> {CHR 0x09, CHR 0x0A, CHR 0x0B, CHR 0x0C, CHR 0x0D, CHR 0x20, CHR 0xA0}"

definition trimStart :: "string \<Rightarrow> string" where
  "trimStart s = dropWhile isWhiteSpace s"

definition trim :: "string \<Rightarrow> string" where
  "trim s = rev (dropWhile isWhiteSpace (rev (dropWhile isWhiteSpace s)))"

fun startsWith :: "string \<Rightarrow> string \<Rightarrow> bool" where
  "startsWith s [] = True"
| "startsWith [] (p # ps) = False"
| "startsWith (c # cs) (p # ps) = (c = p \<and> startsWith cs ps)"

fun str_includes :: "string \<Rightarrow> string \<Rightarrow> bool" where
  "str_includes [] sub = (sub = [])"
| "str_includes (c # cs) sub = (startsWith (c # cs) sub \<or> str_includes cs sub)"

text \<open>\<open>s.split("\n")\<close> and \<open>lines.join("\n")\<close>.\<close>

fun split_lines :: "string \<Rightarrow> string list" where
  "split_lines [] = [[]]"
| "split_lines (c # cs) =
     (if c = newline then [] # split_lines cs
      else (case split_lines cs of
              [] \<Rightarrow> [[c]]
            | l # ls \<Rightarrow> (c # l) # ls))"

fun join_lines :: "string list \<Rightarrow> string" where
  "join_lines [] = []"
| "join_lines [l] = l"
| "join_lines (l # m # ls) = l @ newline # join_lines (m # ls)"

definition isUpper :: "char \<Rightarrow> bool" where
  "isUpper c \<longleftrightarrow> CHR ''A'' \<le> c \<and> c \<le> CHR ''Z''"

definition toLower :: "char \<Rightarrow> char" where
  "toLower c = (if isUpper c then char_of (of_char c + (32 :: nat)) else c)"

definition isDigit :: "char \<Rightarrow> bool" where
  "isDigit c \<longleftrightarrow> CHR ''0'' \<le> c \<and> c \<le> CHR ''9''"

definition isWordChar :: "char \<Rightarrow> bool" where
  "isWordChar c \<longleftrightarrow>
     (CHR ''a'' \<le> c \<and> c \<le> CHR ''z'') \<or> isUpper c \<or> isDigit c \<or> c = CHR ''_''"

subsection \<open>Numbers\<close>

definition digitValue :: "char \<Rightarrow> nat" where
  "digitValue c = of_char c - 48"

definition digitsValue :: "string \<Rightarrow> nat" where
  "digitsValue ds = foldl (\<lambda>acc d. 10 * acc + digitValue d) 0 ds"

definition digitChar :: "nat \<Rightarrow> char" where
  "digitChar d = char_of (48 + d)"

fun natDigits :: "nat \<Rightarrow> nat \<Rightarrow> string \<Rightarrow> string" where
  "natDigits 0 n acc = acc"
| "natDigits (Suc fuel) n acc =
     (if n < 10 then digitChar n # acc
      else natDigits fuel (n div 10) (digitChar (n mod 10) # acc))"

definition showNat :: "nat \<Rightarrow> string" where
  "showNat n = natDigits (Suc n) n []"

text \<open>The digits after the decimal point of a fraction in \<open>[0, 1)\<close>, until it is used up.\<close>

fun fracDigits :: "nat \<Rightarrow> rat \<Rightarrow> string" where
  "fracDigits 0 r = []"
| "fracDigits (Suc fuel) r =
     (if r = 0 then []
      else (let d = nat \<lfloor>r * 10\<rfloor>
            in digitChar d # fracDigits fuel (r * 10 - of_nat d)))"

definition showRat :: "rat \<Rightarrow> string" where
  "showRat r =
     (let a = \<bar>r\<bar>; i = \<lfloor>a\<rfloor>; f = a - of_int i;
          body = showNat (nat i) @ (if f = 0 then [] else CHR ''.'' # fracDigits (nat (snd (quotient_of a))) f)
      in if r < 0 then CHR ''-'' # body else body)"

text \<open>\<open>String(n)\<close> for a number.\<close>

fun numberToString :: "number \<Rightarrow> string" where
  "numberToString NaN = ''NaN''"
| "numberToString PosInfinity = ''Infinity''"
| "numberToString NegInfinity = ''-Infinity''"
| "numberToString (Num r) = showRat r"

text \<open>\<open>n > 0\<close>, \<open>Math.ceil(n * 1000)\<close>, \<open>Math.ceil(n / 1000)\<close> and the truth value of a number.\<close>

fun isPositive :: "number \<Rightarrow> bool" where
  "isPositive (Num r) = (r > 0)"
| "isPositive PosInfinity = True"
| "isPositive _ = False"

fun ceilTimes1000 :: "number \<Rightarrow> number" where
  "ceilTimes1000 (Num r) = Num (of_int \<lceil>r * 1000\<rceil>)"
| "ceilTimes1000 n = n"

fun ceilDiv1000 :: "number \<Rightarrow> number" where
  "ceilDiv1000 (Num r) = Num (of_int \<lceil>r / 1000\<rceil>)"
| "ceilDiv1000 n = n"

fun numberTruthy :: "number \<Rightarrow> bool" where
  "numberTruthy (Num r) = (r \<noteq> 0)"
| "numberTruthy NaN = False"
| "numberTruthy _ = True"

text \<open>
  \<open>parseInt(s, 10)\<close>: leading white space, a sign, then the longest run of digits;
  \<open>None\<close> is NaN.
\<close>

definition parseInt :: "string \<Rightarrow> int option" where
  "parseInt s =
     (let t = trimStart s;
          neg = startsWith t ''-'';
          u = (if startsWith t ''-'' \<or> startsWith t ''+'' then tl t else t);
          ds = takeWhile isDigit u
      in if ds = [] then None
         else Some (if neg then - int (digitsValue ds) else int (digitsValue ds)))"

text \<open>
  \<open>parseFloat(s)\<close>: leading white space, a sign, then \<open>Infinity\<close> or the longest prefix
  that is a decimal literal (digits, a fraction, an exponent that has a digit).
\<close>

definition exponentPart :: "string \<Rightarrow> int" where
  "exponentPart s =
     (if startsWith s ''e'' \<or> startsWith s ''E'' then
        (let t = tl s;
             neg = startsWith t ''-'';
             u = (if startsWith t ''-'' \<or> startsWith t ''+'' then tl t else t);
             ds = takeWhile isDigit u
         in if ds = [] then 0
            else if neg then - int (digitsValue ds) else int (digitsValue ds))
      else 0)"

definition pow10 :: "int \<Rightarrow> rat" where
  "pow10 e = (if e < 0 then 1 / (10 ^ nat (- e)) else 10 ^ nat e)"

definition parseFloat :: "string \<Rightarrow> number" where
  "parseFloat s =
     (let t = trimStart s;
          neg = startsWith t ''-'';
          u = (if startsWith t ''-'' \<or> startsWith t ''+'' then tl t else t)
      in if startsWith u ''Infinity'' then (if neg then NegInfinity else PosInfinity)
         else
           (let ip = takeWhile isDigit u;
                r1 = dropWhile isDigit u;
                fp = (if startsWith r1 ''.'' then takeWhile isDigit (tl r1) else []);
                r2 = (if startsWith r1 ''.'' then dropWhile isDigit (tl r1) else r1)
            in if ip = [] \<and> fp = [] then NaN
               else
                 (let m = of_nat (digitsValue ip) + of_nat (digitsValue fp) / (10 ^ length fp);
                      v = m * pow10 (exponentPart r2)
                  in Num (if neg then - v else v))))"

subsection \<open>Values\<close>

text \<open>
  An own property of a value. Arrays, strings, numbers and booleans have none of the
  properties the code reads; reading a property of \<open>null\<close> throws, which each caller
  below writes out.
\<close>

fun field :: "json \<Rightarrow> string \<Rightarrow> json option" where
  "field (JObj kvs) k = map_of kvs k"
| "field _ k = None"

fun truthy :: "json \<Rightarrow> bool" where
  "truthy JNull = False"
| "truthy (JBool b) = b"
| "truthy (JNum n) = numberTruthy n"
| "truthy (JStr s) = (s \<noteq> [])"
| "truthy (JArr xs) = True"
| "truthy (JObj kvs) = True"

text \<open>\<open>typeof v === "object"\<close> for a value that is not \<open>null\<close>.\<close>

fun isObjectType :: "json \<Rightarrow> bool" where
  "isObjectType (JObj kvs) = True"
| "isObjectType (JArr xs) = True"
| "isObjectType _ = False"

text \<open>The truth value of a string that may be \<open>undefined\<close> or \<open>null\<close>.\<close>

fun truthyStr :: "string option \<Rightarrow> bool" where
  "truthyStr None = False"
| "truthyStr (Some s) = (s \<noteq> [])"

text \<open>\<open>a || b\<close> on optional strings.\<close>

definition orElse :: "string option \<Rightarrow> string option \<Rightarrow> string option" where
  "orElse a b = (if truthyStr a then a else b)"

text \<open>
  \<open>String(v)\<close>. An object answers \<open>[object Object]\<close> unless it has an own \<open>toString\<close>
  property, which a parsed value cannot call: then the conversion throws (\<open>None\<close>).
  An array joins its elements with commas, \<open>null\<close> printing as nothing.
\<close>

fun toStringJs :: "json \<Rightarrow> string option"
  and joinElems :: "json list \<Rightarrow> string option" where
  "toStringJs JNull = Some ''null''"
| "toStringJs (JBool b) = Some (if b then ''true'' else ''false'')"
| "toStringJs (JNum n) = Some (numberToString n)"
| "toStringJs (JStr s) = Some s"
| "toStringJs (JArr xs) = joinElems xs"
| "toStringJs (JObj kvs) =
     (if map_of kvs ''toString'' = None then Some ''[object Object]'' else None)"
| "joinElems [] = Some []"
| "joinElems (x # xs) =
     (case (if x = JNull then Some [] else toStringJs x) of
        None \<Rightarrow> None
      | Some s \<Rightarrow>
          (if xs = [] then Some s
           else (case joinElems xs of None \<Rightarrow> None | Some r \<Rightarrow> Some (s @ '','' @ r))))"

text \<open>\<open>{ ...v }\<close>: the own enumerable properties of a value, copied into a new object.\<close>

fun spread :: "json \<Rightarrow> (string \<times> json) list" where
  "spread (JObj kvs) = kvs"
| "spread (JArr xs) = zip (map showNat [0 ..< length xs]) xs"
| "spread (JStr s) = zip (map showNat [0 ..< length s]) (map (\<lambda>c. JStr [c]) s)"
| "spread _ = []"

section \<open>The request transformer (request.ts)\<close>

text \<open>The constants of constants.ts, which the transformer and the interceptor import.\<close>

record constants =
  ANTIGRAVITY_ENDPOINT_FALLBACKS :: "string list"
  ANTIGRAVITY_API_VERSION :: string
  HEADER_User_Agent :: string
  HEADER_X_Goog_Api_Client :: string
  HEADER_Client_Metadata :: string

record AntigravityRequestBody =
  project :: string
  model :: string
  request :: "(string \<times> json) list"

record TransformedRequest =
  url :: string
  headers :: "(string \<times> string) list"
  body :: AntigravityRequestBody
  streaming :: bool

definition buildRequestHeaders :: "constants \<Rightarrow> string \<Rightarrow> (string \<times> string) list" where
  "buildRequestHeaders k accessToken =
     [(''Authorization'', ''Bearer '' @ accessToken),
      (''Content-Type'', ''application/json''),
      (''User-Agent'', HEADER_User_Agent k),
      (''X-Goog-Api-Client'', HEADER_X_Goog_Api_Client k),
      (''Client-Metadata'', HEADER_Client_Metadata k)]"

definition extractModelFromBody :: "json \<Rightarrow> string option" where
  "extractModelFromBody b =
     (case field b ''model'' of
        Some (JStr m) \<Rightarrow> (if trim m \<noteq> [] then Some (trim m) else None)
      | _ \<Rightarrow> None)"

text \<open>
  The pattern \<open>/models/([^:]+):\<close> tried at the head of a string: the segment runs to the
  first colon and must not be empty.
\<close>

definition modelSegmentHere :: "string \<Rightarrow> string option" where
  "modelSegmentHere s =
     (if startsWith s ''/models/'' then
        (let rest = drop 8 s; seg = takeWhile (\<lambda>c. c \<noteq> CHR '':'') rest
         in if seg \<noteq> [] \<and> startsWith (drop (length seg) rest) '':'' then Some seg else None)
      else None)"

fun extractModelFromUrl :: "string \<Rightarrow> string option" where
  "extractModelFromUrl [] = None"
| "extractModelFromUrl (c # cs) =
     (case modelSegmentHere (c # cs) of
        Some m \<Rightarrow> Some m
      | None \<Rightarrow> extractModelFromUrl cs)"

text \<open>The pattern \<open>/models/[^:]+:(\w+)\<close> tried at the head of a string.\<close>

definition actionHere :: "string \<Rightarrow> string option" where
  "actionHere s =
     (case modelSegmentHere s of
        None \<Rightarrow> None
      | Some seg \<Rightarrow>
          (let w = takeWhile isWordChar (drop (8 + length seg + 1) s)
           in if w \<noteq> [] then Some w else None))"

fun extractActionFromUrl :: "string \<Rightarrow> string option" where
  "extractActionFromUrl [] = None"
| "extractActionFromUrl (c # cs) =
     (case actionHere (c # cs) of
        Some a \<Rightarrow> Some a
      | None \<Rightarrow> extractActionFromUrl cs)"

definition isGenerativeLanguageRequest :: "string \<Rightarrow> bool" where
  "isGenerativeLanguageRequest u = str_includes u ''generativelanguage.googleapis.com''"

definition buildAntigravityUrl :: "constants \<Rightarrow> string \<Rightarrow> string \<Rightarrow> bool \<Rightarrow> string" where
  "buildAntigravityUrl k baseEndpoint action strm =
     baseEndpoint @ ''/'' @ ANTIGRAVITY_API_VERSION k @ '':'' @ action
       @ (if strm then ''?alt=sse'' else [])"

text \<open>The first fallback endpoint; \<open>undefined\<close> when the list is empty.\<close>

definition getDefaultEndpoint :: "constants \<Rightarrow> string option" where
  "getDefaultEndpoint k =
     (case ANTIGRAVITY_ENDPOINT_FALLBACKS k of [] \<Rightarrow> None | e # es \<Rightarrow> Some e)"

definition wrapRequestBody :: "json \<Rightarrow> string \<Rightarrow> string \<Rightarrow> AntigravityRequestBody" where
  "wrapRequestBody b projectId modelName =
     (let requestPayload = spread b;
          requestPayload = AList.delete ''model'' requestPayload
      in \<lparr>project = projectId, model = modelName, request = requestPayload\<rparr>)"

definition isStreamingRequest :: "string \<Rightarrow> json \<Rightarrow> bool" where
  "isStreamingRequest u b =
     (if extractActionFromUrl u = Some ''streamGenerateContent'' then True
      else if field b ''stream'' = Some (JBool True) then True
      else False)"

definition fallbackModel :: string where
  "fallbackModel = ''gemini-3-pro-preview''"

text \<open>
  The effective model of \<open>transformRequest\<close>:
  \<open>modelName || extractModelFromBody(body) || extractModelFromUrl(url) || fallback\<close>.
\<close>

definition effectiveModel :: "string \<Rightarrow> json \<Rightarrow> string option \<Rightarrow> string" where
  "effectiveModel u b modelName =
     (case orElse (orElse modelName (extractModelFromBody b)) (extractModelFromUrl u) of
        Some m \<Rightarrow> (if m \<noteq> [] then m else fallbackModel)
      | None \<Rightarrow> fallbackModel)"

text \<open>
  The body has the declared type of an object; fetch.ts reads a property of the value
  before it calls, so \<open>null\<close> does not arrive here. An endpoint that is \<open>undefined\<close>
  prints as such in the URL template.
\<close>

definition transformRequest ::
  "constants \<Rightarrow> string \<Rightarrow> json \<Rightarrow> string \<Rightarrow> string \<Rightarrow> string option \<Rightarrow> string option
     \<Rightarrow> TransformedRequest" where
  "transformRequest k u b accessToken projectId modelName endpointOverride =
     (let effModel = effectiveModel u b modelName;
          strm = isStreamingRequest u b;
          action = (if strm then ''streamGenerateContent'' else ''generateContent'');
          endpoint = (case orElse endpointOverride (getDefaultEndpoint k) of
                        Some e \<Rightarrow> e | None \<Rightarrow> ''undefined'');
          transformedUrl = buildAntigravityUrl k endpoint action strm;
          hdrs = buildRequestHeaders k accessToken;
          hdrs = (if strm then AList.update ''Accept'' ''text/event-stream'' hdrs else hdrs);
          wrappedBody = wrapRequestBody b projectId effModel
      in \<lparr>url = transformedUrl, headers = hdrs, body = wrappedBody, streaming = strm\<rparr>)"

definition addStreamingHeaders :: "(string \<times> string) list \<Rightarrow> (string \<times> string) list" where
  "addStreamingHeaders hdrs = AList.update ''Accept'' ''text/event-stream'' hdrs"

text \<open>The value that \<open>JSON.stringify(transformed.body)\<close> serialises.\<close>

definition requestBodyJson :: "AntigravityRequestBody \<Rightarrow> json" where
  "requestBodyJson w =
     JObj [(''project'', JStr (project w)), (''model'', JStr (model w)),
           (''request'', JObj (request w))]"

section \<open>The response transformer (response.ts)\<close>

subsection \<open>Responses\<close>

text \<open>
  A \<open>Headers\<close> object keeps its names in lower case, each name once, and answers a
  lookup under any spelling of the name: the list holds the names as the object keeps
  them. A \<open>Response\<close> carries what reading its body gives: the text, or the error the
  read rejects with; a body that was read once cannot be read again.
\<close>

type_synonym Headers = "(string \<times> string) list"

definition headersGet :: "Headers \<Rightarrow> string \<Rightarrow> string option" where
  "headersGet hs name = map_of hs (map toLower name)"

definition headersSet :: "Headers \<Rightarrow> string \<Rightarrow> string \<Rightarrow> Headers" where
  "headersSet hs name v = AList.update (map toLower name) v hs"

record Response =
  status :: nat
  statusText :: string
  resp_headers :: Headers
  resp_body :: "exn + string"
  bodyUsed :: bool

definition ok :: "Response \<Rightarrow> bool" where
  "ok r \<longleftrightarrow> 200 \<le> status r \<and> status r \<le> 299"

text \<open>\<open>await response.text()\<close>.\<close>

definition readText :: "Response \<Rightarrow> exn + string" where
  "readText r = (if bodyUsed r then Inl (TypeError ''Body already used'') else resp_body r)"

text \<open>
  \<open>new Response(text, {status, statusText, headers})\<close>, for a status that admits a body:
  a text body brings its content type when the headers name none.
\<close>

definition newResponse :: "string \<Rightarrow> nat \<Rightarrow> string \<Rightarrow> Headers \<Rightarrow> Response" where
  "newResponse text st stText hs =
     \<lparr>status = st, statusText = stText,
      resp_headers = (if headersGet hs ''content-type'' = None
                      then hs @ [(''content-type'', ''text/plain;charset=UTF-8'')] else hs),
      resp_body = Inr text, bodyUsed = False\<rparr>"

subsection \<open>Usage headers\<close>

record AntigravityUsageMetadata =
  cachedContentTokenCount :: "int option"
  totalTokenCount :: "int option"
  promptTokenCount :: "int option"
  candidatesTokenCount :: "int option"

text \<open>One header of the four: set when the header is a non-empty string that parses.\<close>

definition usageField :: "string option \<Rightarrow> int option" where
  "usageField h = (if truthyStr h then parseInt (the h) else None)"

definition extractUsageFromHeaders :: "Headers \<Rightarrow> AntigravityUsageMetadata option" where
  "extractUsageFromHeaders hs =
     (let cached = headersGet hs ''x-antigravity-cached-content-token-count'';
          total = headersGet hs ''x-antigravity-total-token-count'';
          prompt = headersGet hs ''x-antigravity-prompt-token-count'';
          candidates = headersGet hs ''x-antigravity-candidates-token-count''
      in if \<not> truthyStr cached \<and> \<not> truthyStr total \<and> \<not> truthyStr prompt \<and> \<not> truthyStr candidates
         then None
         else
           (let usage = \<lparr>cachedContentTokenCount = usageField cached,
                         totalTokenCount = usageField total,
                         promptTokenCount = usageField prompt,
                         candidatesTokenCount = usageField candidates\<rparr>
            in if cachedContentTokenCount usage = None \<and> totalTokenCount usage = None
                  \<and> promptTokenCount usage = None \<and> candidatesTokenCount usage = None
               then None else Some usage))"

subsection \<open>Retry-after\<close>

definition retryInfoType :: string where
  "retryInfoType = ''type.googleapis.com/google.rpc.RetryInfo''"

text \<open>
  \<open>details.find(detail => detail["@type"] === retryInfoType)\<close>: the first entry of that
  type; the callback throws on an entry that is \<open>null\<close>.
\<close>

fun findRetryInfo :: "json list \<Rightarrow> exn + json option" where
  "findRetryInfo [] = Inr None"
| "findRetryInfo (d # ds) =
     (if d = JNull then Inl (TypeError ''Cannot read properties of null'')
      else if field d ''@type'' = Some (JStr retryInfoType) then Inr (Some d)
      else findRetryInfo ds)"

text \<open>The pattern \<open>^([\d.]+)s$\<close>: the captured group, when the string matches.\<close>

definition matchRetryDelay :: "string \<Rightarrow> string option" where
  "matchRetryDelay s =
     (if s \<noteq> [] \<and> last s = CHR ''s'' \<and> butlast s \<noteq> []
         \<and> list_all (\<lambda>c. isDigit c \<or> c = CHR ''.'') (butlast s)
      then Some (butlast s) else None)"

text \<open>The first source: the \<open>Retry-After\<close> header, in seconds.\<close>

definition retryAfterFromHeader :: "Response \<Rightarrow> number option" where
  "retryAfterFromHeader response =
     (let retryAfterHeader = headersGet (resp_headers response) ''Retry-After''
      in if truthyStr retryAfterHeader \<and> isPositive (parseFloat (the retryAfterHeader))
         then Some (ceilTimes1000 (parseFloat (the retryAfterHeader))) else None)"

text \<open>The second source: the \<open>retry-after-ms\<close> header, in milliseconds.\<close>

definition retryAfterMsFromHeader :: "Response \<Rightarrow> number option" where
  "retryAfterMsFromHeader response =
     (let retryAfterMsHeader = headersGet (resp_headers response) ''retry-after-ms''
      in if truthyStr retryAfterMsHeader then
           (case parseInt (the retryAfterMsHeader) of
              Some ms \<Rightarrow> (if ms > 0 then Some (Num (of_int ms)) else None)
            | None \<Rightarrow> None)
         else None)"

text \<open>The third source: the RetryInfo entry of the error body.\<close>

definition retryAfterFromBody :: "json option \<Rightarrow> exn + number option" where
  "retryAfterFromBody errorBody =
     (case errorBody of
        None \<Rightarrow> Inr None
      | Some eb \<Rightarrow>
          (if \<not> truthy eb then Inr None
           else
             (case field eb ''error'' of
                None \<Rightarrow> Inr None
              | Some err \<Rightarrow>
                  (case field err ''details'' of
                     Some (JArr details) \<Rightarrow>
                       (case findRetryInfo details of
                          Inl e \<Rightarrow> Inl e
                        | Inr None \<Rightarrow> Inr None
                        | Inr (Some retryInfo) \<Rightarrow>
                            (case field retryInfo ''retryDelay'' of
                               Some (JStr retryDelay) \<Rightarrow>
                                 (case matchRetryDelay retryDelay of
                                    None \<Rightarrow> Inr None
                                  | Some m \<Rightarrow>
                                      (if isPositive (parseFloat m)
                                       then Inr (Some (ceilTimes1000 (parseFloat m)))
                                       else Inr None))
                             | _ \<Rightarrow> Inr None))
                   | _ \<Rightarrow> Inr None))))"

definition extractRetryAfterMs :: "Response \<Rightarrow> json option \<Rightarrow> exn + number option" where
  "extractRetryAfterMs response errorBody =
     (case retryAfterFromHeader response of
        Some ms \<Rightarrow> Inr (Some ms)
      | None \<Rightarrow>
          (case retryAfterMsFromHeader response of
             Some ms \<Rightarrow> Inr (Some ms)
           | None \<Rightarrow> retryAfterFromBody errorBody))"

subsection \<open>Error bodies\<close>

record AntigravityError =
  message :: string
  type :: "string option"
  code :: "json option"

text \<open>\<open>text || "Unknown error"\<close>.\<close>

definition orUnknown :: "string \<Rightarrow> string" where
  "orUnknown text = (if text \<noteq> [] then text else ''Unknown error'')"

text \<open>
  The nested form: \<open>parsed.error\<close> is an object. \<open>None\<close> is an exception thrown by a
  string conversion, which the caller's \<open>catch\<close> receives.
\<close>

definition errorFromWrapper :: "json \<Rightarrow> AntigravityError option" where
  "errorFromWrapper errorObj =
     (case toStringJs (case field errorObj ''message'' of
                         Some m \<Rightarrow> (if truthy m then m else JStr ''Unknown error'')
                       | None \<Rightarrow> JStr ''Unknown error'') of
        None \<Rightarrow> None
      | Some msg \<Rightarrow>
          (case field errorObj ''type'' of
             Some t \<Rightarrow>
               (if truthy t then
                  (case toStringJs t of
                     None \<Rightarrow> None
                   | Some ts \<Rightarrow> Some \<lparr>message = msg, type = Some ts, code = field errorObj ''code''\<rparr>)
                else Some \<lparr>message = msg, type = None, code = field errorObj ''code''\<rparr>)
           | None \<Rightarrow> Some \<lparr>message = msg, type = None, code = field errorObj ''code''\<rparr>))"

text \<open>The direct form: \<open>parsed.message\<close> is a non-empty string.\<close>

definition errorFromTopLevel :: "json \<Rightarrow> string \<Rightarrow> AntigravityError option" where
  "errorFromTopLevel parsed msg =
     (case field parsed ''type'' of
        Some t \<Rightarrow>
          (if truthy t then
             (case toStringJs t of
                None \<Rightarrow> None
              | Some ts \<Rightarrow> Some \<lparr>message = msg, type = Some ts, code = field parsed ''code''\<rparr>)
           else Some \<lparr>message = msg, type = None, code = field parsed ''code''\<rparr>)
      | None \<Rightarrow> Some \<lparr>message = msg, type = None, code = field parsed ''code''\<rparr>)"

text \<open>
  \<open>parseErrorBody\<close>: the \<open>catch\<close> branch answers every exception of the \<open>try\<close> block, the
  SyntaxError of the parser, the TypeError of \<open>parsed.error\<close> on \<open>null\<close> and a failed
  string conversion alike.
\<close>

definition parseErrorBody :: "platform \<Rightarrow> string \<Rightarrow> AntigravityError option" where
  "parseErrorBody p text =
     (let caught = Some \<lparr>message = orUnknown text, type = None, code = None\<rparr>
      in case JSON_parse p text of
           None \<Rightarrow> caught
         | Some parsed \<Rightarrow>
             (if parsed = JNull then caught
              else
                (case field parsed ''error'' of
                   Some e \<Rightarrow>
                     (if truthy e \<and> isObjectType e then
                        (case errorFromWrapper e of None \<Rightarrow> caught | Some r \<Rightarrow> Some r)
                      else
                        (case field parsed ''message'' of
                           Some (JStr m) \<Rightarrow>
                             (if m \<noteq> [] then
                                (case errorFromTopLevel parsed m of None \<Rightarrow> caught | Some r \<Rightarrow> Some r)
                              else None)
                         | _ \<Rightarrow> None))
                 | None \<Rightarrow>
                     (case field parsed ''message'' of
                        Some (JStr m) \<Rightarrow>
                          (if m \<noteq> [] then
                             (case errorFromTopLevel parsed m of None \<Rightarrow> caught | Some r \<Rightarrow> Some r)
                           else None)
                      | _ \<Rightarrow> None))))"

text \<open>The object \<open>{ error }\<close> that \<open>transformResponse\<close> builds from a parsed error.\<close>

definition errorJson :: "AntigravityError \<Rightarrow> json" where
  "errorJson e =
     JObj [(''error'',
            JObj ([(''message'', JStr (message e))]
                  @ (case type e of None \<Rightarrow> [] | Some t \<Rightarrow> [(''type'', JStr t)])
                  @ (case code e of None \<Rightarrow> [] | Some c \<Rightarrow> [(''code'', c)])))]"

subsection \<open>Buffered responses\<close>

record TransformResult =
  response :: Response
  usage :: "AntigravityUsageMetadata option"
  retryAfterMs :: "number option"
  error :: "AntigravityError option"

text \<open>\<open>if (retryMs) { headers.set("Retry-After", ...); headers.set("retry-after-ms", ...) }\<close>\<close>

definition setRetryHeaders :: "Headers \<Rightarrow> number option \<Rightarrow> Headers" where
  "setRetryHeaders hs retryMs =
     (case retryMs of
        None \<Rightarrow> hs
      | Some ms \<Rightarrow>
          (if numberTruthy ms then
             headersSet (headersSet hs ''Retry-After'' (numberToString (ceilDiv1000 ms)))
               ''retry-after-ms'' (numberToString ms)
           else hs))"

text \<open>The object the \<open>catch\<close> of the second parse builds: \<open>{ error: { message: text } }\<close>.\<close>

definition parsedOrWrapped :: "platform \<Rightarrow> string \<Rightarrow> json" where
  "parsedOrWrapped p text =
     (case JSON_parse p text of
        Some v \<Rightarrow> v
      | None \<Rightarrow> JObj [(''error'', JObj [(''message'', JStr text)])])"

text \<open>\<open>parsed.response !== undefined ? parsed.response : parsed\<close>, for a value that is not \<open>null\<close>.\<close>

definition unwrapResponse :: "json \<Rightarrow> json" where
  "unwrapResponse parsed = (case field parsed ''response'' of Some inner \<Rightarrow> inner | None \<Rightarrow> parsed)"

definition contentTypeOf :: "Response \<Rightarrow> string" where
  "contentTypeOf r = (case headersGet (resp_headers r) ''content-type'' of Some ct \<Rightarrow> ct | None \<Rightarrow> [])"

definition transformResponse :: "platform \<Rightarrow> Response \<Rightarrow> exn + TransformResult" where
  "transformResponse p resp =
     (let hdrs = resp_headers resp;
          usg = extractUsageFromHeaders hdrs
      in if \<not> ok resp then
           (case readText resp of
              Inl e \<Rightarrow> Inl e
            | Inr text \<Rightarrow>
                (let err = parseErrorBody p text
                 in case extractRetryAfterMs resp (map_option errorJson err) of
                      Inl e \<Rightarrow> Inl e
                    | Inr retryAfter \<Rightarrow>
                        (case extractRetryAfterMs resp (Some (parsedOrWrapped p text)) of
                           Inl e \<Rightarrow> Inl e
                         | Inr r \<Rightarrow>
                             (let retryMs = (case r of Some ms \<Rightarrow> Some ms | None \<Rightarrow> retryAfter)
                              in Inr \<lparr>response = newResponse text (status resp) (statusText resp)
                                                   (setRetryHeaders hdrs retryMs),
                                      usage = usg, retryAfterMs = retryMs, error = err\<rparr>))))
         else if \<not> str_includes (contentTypeOf resp) ''application/json'' then
           Inr \<lparr>response = resp, usage = usg, retryAfterMs = None, error = None\<rparr>
         else
           (let caught = Inr \<lparr>response = resp\<lparr>bodyUsed := True\<rparr>, usage = usg,
                               retryAfterMs = None, error = None\<rparr>
            in case readText resp of
                 Inl e \<Rightarrow> caught
               | Inr text \<Rightarrow>
                   (case JSON_parse p text of
                      None \<Rightarrow> caught
                    | Some parsed \<Rightarrow>
                        (if parsed = JNull then caught
                         else Inr \<lparr>response = newResponse (JSON_stringify p (unwrapResponse parsed))
                                                (status resp) (statusText resp) hdrs,
                                   usage = usg, retryAfterMs = None, error = None\<rparr>))))"

subsection \<open>Event streams\<close>

definition transformSseLine :: "platform \<Rightarrow> string \<Rightarrow> string" where
  "transformSseLine p line =
     (if \<not> startsWith line ''data:'' then line
      else
        (let json = trim (drop 5 line)
         in if json = [] \<or> json = ''[DONE]'' then line
            else
              (case JSON_parse p json of
                 None \<Rightarrow> line
               | Some parsed \<Rightarrow>
                   (if parsed = JNull then line
                    else (case field parsed ''response'' of
                            Some inner \<Rightarrow> ''data: '' @ JSON_stringify p inner
                          | None \<Rightarrow> line)))))"

definition transformStreamingPayload :: "platform \<Rightarrow> string \<Rightarrow> string" where
  "transformStreamingPayload p payload =
     join_lines (map (transformSseLine p) (split_lines payload))"

definition transformStreamingResponse :: "platform \<Rightarrow> Response \<Rightarrow> exn + TransformResult" where
  "transformStreamingResponse p resp =
     (let hdrs = resp_headers resp;
          usg = extractUsageFromHeaders hdrs
      in if \<not> ok resp then
           (case readText resp of
              Inl e \<Rightarrow> Inl e
            | Inr text \<Rightarrow>
                (let err = parseErrorBody p text
                 in case extractRetryAfterMs resp (Some (parsedOrWrapped p text)) of
                      Inl e \<Rightarrow> Inl e
                    | Inr retryMs \<Rightarrow>
                        Inr \<lparr>response = newResponse text (status resp) (statusText resp)
                                          (setRetryHeaders hdrs retryMs),
                             usage = usg, retryAfterMs = retryMs, error = err\<rparr>))
         else if \<not> str_includes (contentTypeOf resp) ''text/event-stream'' then
           (case readText resp of
              Inl e \<Rightarrow> Inl e
            | Inr text \<Rightarrow>
                (let caught = Inr \<lparr>response = newResponse text (status resp) (statusText resp) hdrs,
                                    usage = usg, retryAfterMs = None, error = None\<rparr>
                 in case JSON_parse p text of
                      None \<Rightarrow> caught
                    | Some parsed \<Rightarrow>
                        (if parsed = JNull then caught
                         else Inr \<lparr>response = newResponse (JSON_stringify p (unwrapResponse parsed))
                                                (status resp) (statusText resp) hdrs,
                                   usage = usg, retryAfterMs = None, error = None\<rparr>)))
         else
           (case readText resp of
              Inl e \<Rightarrow> Inr \<lparr>response = resp\<lparr>bodyUsed := True\<rparr>, usage = usg,
                            retryAfterMs = None, error = None\<rparr>
            | Inr text \<Rightarrow>
                Inr \<lparr>response = newResponse (transformStreamingPayload p text)
                                  (status resp) (statusText resp) hdrs,
                     usage = usg, retryAfterMs = None, error = None\<rparr>))"

definition isStreamingResponse :: "Response \<Rightarrow> bool" where
  "isStreamingResponse r = str_includes (contentTypeOf r) ''text/event-stream''"

section \<open>The fetch interceptor (fetch.ts)\<close>

subsection \<open>Collaborators\<close>

record Auth =
  access :: "string option"
  refresh :: "string option"
  expires :: "int option"

record AntigravityTokens =
  access_token :: string
  refresh_token :: string
  expires_in :: int
  timestamp :: int

text \<open>What \<open>parseStoredToken\<close> recovers from the stored refresh credential.\<close>

record RefreshParts =
  refreshToken :: string
  projectId :: "string option"
  managedProjectId :: "string option"

text \<open>What \<open>refreshAccessToken\<close> resolves to.\<close>

record TokenExchange =
  new_access_token :: string
  new_refresh_token :: string
  new_expires_in :: int

text \<open>The request that the interceptor hands to the network.\<close>

record FetchRequest =
  req_url :: string
  req_method :: string
  req_headers :: "(string \<times> string) list"
  req_body :: string

text \<open>
  The functions the interceptor imports from token.ts, project.ts, tools.ts and
  thinking.ts, the two functions it is created with, the clock and the network. A call
  that can reject answers a sum. The network answers the request of the attempt with the
  given index, with a response or with the error the call rejects with.
  \<open>clearProjectContextCache\<close> empties a cache that project.ts keeps for itself, and
  \<open>debugLog\<close> prints: neither changes what the interceptor computes, and neither is
  modelled. The abort signal of \<open>init\<close> is handed to the network as it is.
\<close>

record collaborators =
  getAuth :: "exn + Auth"
  client_set :: "string \<Rightarrow> Auth \<Rightarrow> exn option"
  parseStoredToken :: "string \<Rightarrow> RefreshParts"
  formatTokenForStorage :: "string \<Rightarrow> string \<Rightarrow> string option \<Rightarrow> string"
  isTokenExpired :: "AntigravityTokens \<Rightarrow> bool"
  refreshAccessToken :: "string \<Rightarrow> exn + TokenExchange"
  fetchProjectContext :: "string \<Rightarrow> string option"
  normalizeToolsForGemini :: "json list \<Rightarrow> exn + json option"
  shouldIncludeThinking :: "string \<Rightarrow> bool"
  extractThinkingBlocks :: "json \<Rightarrow> exn + bool"
  transformResponseThinking :: "json \<Rightarrow> exn + json"
  Date_now :: int
  network :: "nat \<Rightarrow> FetchRequest \<Rightarrow> exn + Response"

subsection \<open>One attempt\<close>

definition isRetryableError :: "nat \<Rightarrow> bool" where
  "isRetryableError st =
     (if st = 0 then True
      else if st = 429 then True
      else if st \<ge> 500 \<and> st < 600 then True
      else False)"

datatype BodyInit = BodyString string | BodyObject json

record RequestInit =
  init_method :: "string option"
  init_body :: "BodyInit option"

text \<open>\<open>if (init.body)\<close>\<close>

fun bodyPresent :: "BodyInit option \<Rightarrow> bool" where
  "bodyPresent None = False"
| "bodyPresent (Some (BodyString s)) = (s \<noteq> [])"
| "bodyPresent (Some (BodyObject v)) = truthy v"

text \<open>
  \<open>typeof init.body === "string" ? JSON.parse(init.body) : init.body\<close>; \<open>None\<close> is the
  exception of the parser.
\<close>

fun readBody :: "platform \<Rightarrow> BodyInit option \<Rightarrow> json option" where
  "readBody p None = None"
| "readBody p (Some (BodyString s)) = JSON_parse p s"
| "readBody p (Some (BodyObject v)) = Some v"

text \<open>The body an attempt starts from: the parsed body, or \<open>{}\<close>.\<close>

definition attemptBody :: "platform \<Rightarrow> RequestInit \<Rightarrow> json" where
  "attemptBody p init =
     (if bodyPresent (init_body init) then
        (case readBody p (init_body init) of Some v \<Rightarrow> v | None \<Rightarrow> JObj [])
      else JObj [])"

text \<open>
  Tool normalisation: \<open>body.tools\<close> throws on \<open>null\<close>; a result that is truthy replaces
  the property.
\<close>

definition normalizeBodyTools :: "collaborators \<Rightarrow> json \<Rightarrow> exn + json" where
  "normalizeBodyTools c b =
     (if b = JNull then Inl (TypeError ''Cannot read properties of null'')
      else
        (case field b ''tools'' of
           Some (JArr tools) \<Rightarrow>
             (case normalizeToolsForGemini c tools of
                Inl e \<Rightarrow> Inl e
              | Inr None \<Rightarrow> Inr b
              | Inr (Some normalizedTools) \<Rightarrow>
                  (if truthy normalizedTools
                   then Inr (JObj (AList.update ''tools'' normalizedTools (spread b)))
                   else Inr b))
         | _ \<Rightarrow> Inr b))"

text \<open>
  The part of \<open>attemptFetch\<close> before the call: the request, or the exception that the
  \<open>catch\<close> of the attempt receives. An object given as \<open>init.body\<close> is the very object that
  the normalisation writes to, so the write reaches the next attempt; a string is parsed
  anew by each attempt.
\<close>

definition buildAttempt ::
  "platform \<Rightarrow> collaborators \<Rightarrow> constants \<Rightarrow> string \<Rightarrow> string \<Rightarrow> RequestInit \<Rightarrow> string \<Rightarrow> string
     \<Rightarrow> string option \<Rightarrow> exn + (RequestInit \<times> FetchRequest)" where
  "buildAttempt p c k endpoint u init accessToken projId modelName =
     (case normalizeBodyTools c (attemptBody p init) of
        Inl e \<Rightarrow> Inl e
      | Inr b \<Rightarrow>
          (let transformed = transformRequest k u b accessToken projId modelName (Some endpoint);
               init' = (case init_body init of
                          Some (BodyObject v) \<Rightarrow>
                            (if truthy v then init\<lparr>init_body := Some (BodyObject b)\<rparr> else init)
                        | _ \<Rightarrow> init)
           in Inr (init',
                   \<lparr>req_url = url transformed,
                    req_method = (case orElse (init_method init) (Some ''POST'') of
                                    Some m \<Rightarrow> m | None \<Rightarrow> ''POST''),
                    req_headers = headers transformed,
                    req_body = JSON_stringify p (requestBodyJson (body transformed))\<rparr>)))"

text \<open>What an attempt did: it issued a request, or it failed before the call.\<close>

datatype attempt = Issued FetchRequest | NotIssued exn

definition attemptFetch ::
  "platform \<Rightarrow> collaborators \<Rightarrow> constants \<Rightarrow> nat \<Rightarrow> string \<Rightarrow> string \<Rightarrow> RequestInit \<Rightarrow> string
     \<Rightarrow> string \<Rightarrow> string option \<Rightarrow> RequestInit \<times> attempt \<times> Response option" where
  "attemptFetch p c k i endpoint u init accessToken projId modelName =
     (case buildAttempt p c k endpoint u init accessToken projId modelName of
        Inl e \<Rightarrow> (init, NotIssued e, None)
      | Inr (init', req) \<Rightarrow>
          (case network c i req of
             Inl e \<Rightarrow> (init', Issued req, None)
           | Inr resp \<Rightarrow>
               (if \<not> ok resp \<and> isRetryableError (status resp) then (init', Issued req, None)
                else (init', Issued req, Some resp))))"

subsection \<open>Thinking extraction\<close>

text \<open>
  The \<open>try\<close> block of \<open>transformResponseWithThinking\<close>: the replacement response, or
  \<open>None\<close> when there are no thinking blocks or anything in the block throws. A clone of
  a response whose body was read cannot be made.
\<close>

definition thinkingReplacement :: "platform \<Rightarrow> collaborators \<Rightarrow> Response \<Rightarrow> Response option" where
  "thinkingReplacement p c r =
     (case readText r of
        Inl e \<Rightarrow> None
      | Inr text \<Rightarrow>
          (case JSON_parse p text of
             None \<Rightarrow> None
           | Some parsed \<Rightarrow>
               (case extractThinkingBlocks c parsed of
                  Inl e \<Rightarrow> None
                | Inr hasThinking \<Rightarrow>
                    (if hasThinking then
                       (case transformResponseThinking c parsed of
                          Inl e \<Rightarrow> None
                        | Inr transformed \<Rightarrow>
                            Some (newResponse (JSON_stringify p transformed) (status r)
                                    (statusText r) (resp_headers r)))
                     else None))))"

definition transformResponseWithThinking ::
  "platform \<Rightarrow> collaborators \<Rightarrow> Response \<Rightarrow> string \<Rightarrow> exn + Response" where
  "transformResponseWithThinking p c resp modelName =
     (let strm = isStreamingResponse resp
      in case (if strm then transformStreamingResponse p resp else transformResponse p resp) of
           Inl e \<Rightarrow> Inl e
         | Inr result \<Rightarrow>
             (if \<not> strm \<and> shouldIncludeThinking c modelName then
                (case thinkingReplacement p c (response result) of
                   Some replaced \<Rightarrow> Inr replaced
                 | None \<Rightarrow> Inr (response result))
              else Inr (response result)))"

subsection \<open>The interceptor\<close>

text \<open>The two variables the created function closes over.\<close>

record cache =
  cachedTokens :: "AntigravityTokens option"
  cachedProjectId :: "string option"

text \<open>The loop over the endpoints, from attempt \<open>i\<close> on: what each attempt did and the first response that is not retryable.\<close>

fun tryEndpoints ::
  "platform \<Rightarrow> collaborators \<Rightarrow> constants \<Rightarrow> nat \<Rightarrow> string list \<Rightarrow> string \<Rightarrow> RequestInit \<Rightarrow> string
     \<Rightarrow> string \<Rightarrow> string option \<Rightarrow> attempt list \<times> Response option" where
  "tryEndpoints p c k i [] u init accessToken projId modelName = ([], None)"
| "tryEndpoints p c k i (endpoint # rest) u init accessToken projId modelName =
     (case attemptFetch p c k i endpoint u init accessToken projId modelName of
        (init', a, Some resp) \<Rightarrow> ([a], Some resp)
      | (init', a, None) \<Rightarrow>
          (case tryEndpoints p c k (Suc i) rest u init' accessToken projId modelName of
             (as, res) \<Rightarrow> (a # as, res)))"

definition maxEndpoints :: "constants \<Rightarrow> nat" where
  "maxEndpoints k = min (length (ANTIGRAVITY_ENDPOINT_FALLBACKS k)) 3"

definition allEndpointsFailed :: "platform \<Rightarrow> nat \<Rightarrow> Response" where
  "allEndpointsFailed p n =
     \<lparr>status = 503, statusText = ''Service Unavailable'',
      resp_headers = [(''content-type'', ''application/json'')],
      resp_body = Inr (JSON_stringify p
        (JObj [(''error'',
                JObj [(''message'', JStr (''All Antigravity endpoints failed after '' @ showNat n @ '' attempts'')),
                      (''type'', JStr ''endpoint_failure''),
                      (''code'', JStr ''all_endpoints_failed'')])])),
      bodyUsed = False\<rparr>"

text \<open>The token state after the credentials were read: a new cache entry, or the old one with fresh values.\<close>

definition seedTokens :: "collaborators \<Rightarrow> cache \<Rightarrow> Auth \<Rightarrow> RefreshParts \<Rightarrow> AntigravityTokens" where
  "seedTokens c st auth parts =
     (case cachedTokens st of
        None \<Rightarrow>
          \<lparr>access_token = the (access auth),
           refresh_token = refreshToken parts,
           expires_in = (case expires auth of
                           Some e \<Rightarrow> (if e \<noteq> 0 then (e - Date_now c) div 1000 else 3600)
                         | None \<Rightarrow> 3600),
           timestamp = (case expires auth of
                          Some e \<Rightarrow> (if e \<noteq> 0 then e - 3600 * 1000 else Date_now c)
                        | None \<Rightarrow> Date_now c)\<rparr>
      | Some t \<Rightarrow> t\<lparr>access_token := the (access auth), refresh_token := refreshToken parts\<rparr>)"

definition refreshFailed :: "exn \<Rightarrow> exn" where
  "refreshFailed e = Error (''Antigravity: Token refresh failed: '' @ errorMessage e)"

text \<open>
  The refresh of an expired token: the token state the cache holds afterwards, and the
  error thrown, if any. The new tokens are in the cache before they are saved.
\<close>

definition refreshIfExpired ::
  "collaborators \<Rightarrow> string \<Rightarrow> RefreshParts \<Rightarrow> AntigravityTokens \<Rightarrow> AntigravityTokens \<times> exn option" where
  "refreshIfExpired c providerId parts tokens =
     (if isTokenExpired c tokens then
        (case refreshAccessToken c (refreshToken parts) of
           Inl e \<Rightarrow> (tokens, Some (refreshFailed e))
         | Inr newTokens \<Rightarrow>
             (let tokens' = \<lparr>access_token = new_access_token newTokens,
                             refresh_token = new_refresh_token newTokens,
                             expires_in = new_expires_in newTokens,
                             timestamp = Date_now c\<rparr>;
                  formattedRefresh = formatTokenForStorage c (new_refresh_token newTokens)
                    (case orElse (projectId parts) (Some []) of Some s \<Rightarrow> s | None \<Rightarrow> [])
                    (managedProjectId parts)
              in case client_set c providerId
                        \<lparr>access = Some (new_access_token newTokens),
                         refresh = Some formattedRefresh,
                         expires = Some (Date_now c + new_expires_in newTokens * 1000)\<rparr> of
                   Some e \<Rightarrow> (tokens', Some (refreshFailed e))
                 | None \<Rightarrow> (tokens', None)))
      else (tokens, None))"

text \<open>The model name the interceptor reads from the body; a body that does not parse, or is \<open>null\<close>, gives none.\<close>

definition bodyModelName :: "platform \<Rightarrow> RequestInit \<Rightarrow> string option" where
  "bodyModelName p init =
     (if bodyPresent (init_body init) then
        (case readBody p (init_body init) of
           Some b \<Rightarrow> (case field b ''model'' of Some (JStr m) \<Rightarrow> Some m | _ \<Rightarrow> None)
         | None \<Rightarrow> None)
      else None)"

text \<open>
  The function that \<open>createAntigravityFetch\<close> returns, as a step on the cache: the new
  cache, what the attempts did, and the response or the exception of the call.
\<close>

definition antigravityFetch ::
  "platform \<Rightarrow> collaborators \<Rightarrow> constants \<Rightarrow> string \<Rightarrow> cache \<Rightarrow> string \<Rightarrow> RequestInit
     \<Rightarrow> cache \<times> attempt list \<times> (exn + Response)" where
  "antigravityFetch p c k providerId st u init =
     (case getAuth c of
        Inl e \<Rightarrow> (st, [], Inl e)
      | Inr auth \<Rightarrow>
          (if \<not> truthyStr (access auth) \<or> \<not> truthyStr (refresh auth) then
             (st, [], Inl (Error ''Antigravity: No authentication tokens available''))
           else
             (let parts = parseStoredToken c (the (refresh auth))
              in case refreshIfExpired c providerId parts (seedTokens c st auth parts) of
                   (tokens, Some e) \<Rightarrow> (st\<lparr>cachedTokens := Some tokens\<rparr>, [], Inl e)
                 | (tokens, None) \<Rightarrow>
                     (let cachedProject =
                            (if \<not> truthyStr (cachedProjectId st) then
                               (case orElse (fetchProjectContext c (access_token tokens)) (Some []) of
                                  Some s \<Rightarrow> s | None \<Rightarrow> [])
                             else the (cachedProjectId st));
                          st' = \<lparr>cachedTokens = Some tokens, cachedProjectId = Some cachedProject\<rparr>;
                          projId = (case orElse (projectId parts) (Some cachedProject) of
                                      Some s \<Rightarrow> s | None \<Rightarrow> []);
                          modelName = bodyModelName p init
                      in case tryEndpoints p c k 0
                                (take (maxEndpoints k) (ANTIGRAVITY_ENDPOINT_FALLBACKS k))
                                u init (access_token tokens) projId modelName of
                           (as, Some resp) \<Rightarrow>
                             (st', as,
                              transformResponseWithThinking p c resp
                                (case orElse modelName (Some []) of Some m \<Rightarrow> m | None \<Rightarrow> []))
                         | (as, None) \<Rightarrow> (st', as, Inr (allEndpointsFailed p (maxEndpoints k)))))))"

section \<open>A reference platform\<close>

text \<open>
  A parser and a serialiser for JSON texts, to run the transformers on concrete inputs.
  The parser reads the grammar of JSON over the characters of the model, with numbers
  as exact decimals; an escape \<open>\u\<close> is read when it names one of these characters.
\<close>

definition isJsonSpace :: "char \<Rightarrow> bool" where
  "isJsonSpace c \<longleftrightarrow> c \<in> {CHR 0x20, CHR 0x09, CHR 0x0A, CHR 0x0D}"

definition skipSpace :: "string \<Rightarrow> string" where
  "skipSpace s = dropWhile isJsonSpace s"

definition hexValue :: "char \<Rightarrow> nat option" where
  "hexValue c =
     (if isDigit c then Some (of_char c - 48)
      else if CHR ''a'' \<le> c \<and> c \<le> CHR ''f'' then Some (of_char c - 87)
      else if CHR ''A'' \<le> c \<and> c \<le> CHR ''F'' then Some (of_char c - 55)
      else None)"

text \<open>The characters of a string literal after its opening quote, and the rest of the input.\<close>

fun parseChars :: "string \<Rightarrow> (string \<times> string) option" where
  "parseChars [] = None"
| "parseChars (c # cs) =
     (if c = dquote then Some ([], cs)
      else if of_char c < (32 :: nat) then None
      else if c = CHR 0x5C then
        (case cs of
           [] \<Rightarrow> None
         | e # es \<Rightarrow>
             (if e = CHR ''u'' then
                (case es of
                   h1 # h2 # h3 # h4 # r \<Rightarrow>
                     (case (hexValue h1, hexValue h2, hexValue h3, hexValue h4) of
                        (Some a, Some b, Some x, Some y) \<Rightarrow>
                          (if a = 0 \<and> b = 0 then
                             (case parseChars r of
                                None \<Rightarrow> None
                              | Some (str, r') \<Rightarrow> Some (char_of (16 * x + y) # str, r'))
                           else None)
                      | _ \<Rightarrow> None)
                 | _ \<Rightarrow> None)
              else
                (case map_of [(dquote, dquote), (CHR 0x5C, CHR 0x5C), (CHR ''/'', CHR ''/''),
                              (CHR ''b'', CHR 0x08), (CHR ''f'', CHR 0x0C), (CHR ''n'', CHR 0x0A),
                              (CHR ''r'', CHR 0x0D), (CHR ''t'', CHR 0x09)] e of
                   None \<Rightarrow> None
                 | Some d \<Rightarrow>
                     (case parseChars es of
                        None \<Rightarrow> None
                      | Some (str, r') \<Rightarrow> Some (d # str, r')))))
      else
        (case parseChars cs of
           None \<Rightarrow> None
         | Some (str, r') \<Rightarrow> Some (c # str, r')))"

text \<open>A number literal at the head of the input: \<open>-? int frac? exp?\<close>.\<close>

definition parseNumber :: "string \<Rightarrow> (number \<times> string) option" where
  "parseNumber s =
     (let neg = startsWith s ''-'';
          u = (if neg then tl s else s);
          ip = takeWhile isDigit u;
          r1 = dropWhile isDigit u
      in if ip = [] \<or> (length ip > 1 \<and> hd ip = CHR ''0'') then None
         else
           (let hasFrac = startsWith r1 ''.'';
                fp = (if hasFrac then takeWhile isDigit (tl r1) else []);
                r2 = (if hasFrac then dropWhile isDigit (tl r1) else r1);
                hasExp = startsWith r2 ''e'' \<or> startsWith r2 ''E'';
                t = (if hasExp then tl r2 else r2);
                t' = (if hasExp \<and> (startsWith t ''-'' \<or> startsWith t ''+'') then tl t else t);
                ed = (if hasExp then takeWhile isDigit t' else []);
                r3 = (if hasExp then dropWhile isDigit t' else r2)
            in if (hasFrac \<and> fp = []) \<or> (hasExp \<and> ed = []) then None
               else
                 (let m = of_nat (digitsValue ip) + of_nat (digitsValue fp) / (10 ^ length fp);
                      v = m * pow10 (exponentPart r2)
                  in Some (Num (if neg then - v else v), r3))))"

text \<open>A value at the head of the input; the fuel bounds the depth and the length.\<close>

fun parseValue :: "nat \<Rightarrow> string \<Rightarrow> (json \<times> string) option"
  and parseElements :: "nat \<Rightarrow> string \<Rightarrow> (json list \<times> string) option"
  and parseMembers :: "nat \<Rightarrow> string \<Rightarrow> ((string \<times> json) list \<times> string) option" where
  "parseValue 0 s = None"
| "parseValue (Suc n) s =
     (let t = skipSpace s
      in if startsWith t ''null'' then Some (JNull, drop 4 t)
         else if startsWith t ''true'' then Some (JBool True, drop 4 t)
         else if startsWith t ''false'' then Some (JBool False, drop 5 t)
         else if startsWith t [dquote] then
           (case parseChars (tl t) of
              None \<Rightarrow> None
            | Some (str, r) \<Rightarrow> Some (JStr str, r))
         else if startsWith t ''['' then
           (if startsWith (skipSpace (tl t)) '']'' then Some (JArr [], tl (skipSpace (tl t)))
            else (case parseElements n (tl t) of
                    None \<Rightarrow> None
                  | Some (xs, r) \<Rightarrow> Some (JArr xs, r)))
         else if startsWith t ''{'' then
           (if startsWith (skipSpace (tl t)) ''}'' then Some (JObj [], tl (skipSpace (tl t)))
            else (case parseMembers n (tl t) of
                    None \<Rightarrow> None
                  | Some (kvs, r) \<Rightarrow> Some (JObj kvs, r)))
         else
           (case parseNumber t of
              None \<Rightarrow> None
            | Some (v, r) \<Rightarrow> Some (JNum v, r)))"
| "parseElements 0 s = None"
| "parseElements (Suc n) s =
     (case parseValue n s of
        None \<Rightarrow> None
      | Some (v, r) \<Rightarrow>
          (let t = skipSpace r
           in if startsWith t '','' then
                (case parseElements n (tl t) of
                   None \<Rightarrow> None
                 | Some (vs, r') \<Rightarrow> Some (v # vs, r'))
              else if startsWith t '']'' then Some ([v], tl t)
              else None))"
| "parseMembers 0 s = None"
| "parseMembers (Suc n) s =
     (let t = skipSpace s
      in if startsWith t [dquote] then
           (case parseChars (tl t) of
              None \<Rightarrow> None
            | Some (key, r) \<Rightarrow>
                (let t1 = skipSpace r
                 in if startsWith t1 '':'' then
                      (case parseValue n (tl t1) of
                         None \<Rightarrow> None
                       | Some (v, r1) \<Rightarrow>
                           (let t2 = skipSpace r1
                            in if startsWith t2 '','' then
                                 (case parseMembers n (tl t2) of
                                    None \<Rightarrow> None
                                  | Some (kvs, r2) \<Rightarrow>
                                      Some ((key, (case map_of kvs key of Some w \<Rightarrow> w | None \<Rightarrow> v))
                                              # AList.delete key kvs, r2))
                               else if startsWith t2 ''}'' then Some ([(key, v)], tl t2)
                               else None))
                    else None))
         else None)"

definition refParse :: "string \<Rightarrow> json option" where
  "refParse s =
     (case parseValue (Suc (length s)) s of
        None \<Rightarrow> None
      | Some (v, r) \<Rightarrow> (if skipSpace r = [] then Some v else None))"

text \<open>The serialiser: no white space, strings with the escapes of \<open>JSON.stringify\<close>, a number that is not finite as \<open>null\<close>.\<close>

definition hexDigit :: "nat \<Rightarrow> char" where
  "hexDigit d = (if d < 10 then char_of (48 + d) else char_of (87 + d))"

definition escapeChar :: "char \<Rightarrow> string" where
  "escapeChar c =
     (if c = dquote then [CHR 0x5C, dquote]
      else if c = CHR 0x5C then [CHR 0x5C, CHR 0x5C]
      else if c = CHR 0x08 then [CHR 0x5C, CHR ''b'']
      else if c = CHR 0x0C then [CHR 0x5C, CHR ''f'']
      else if c = CHR 0x0A then [CHR 0x5C, CHR ''n'']
      else if c = CHR 0x0D then [CHR 0x5C, CHR ''r'']
      else if c = CHR 0x09 then [CHR 0x5C, CHR ''t'']
      else if of_char c < (32 :: nat) then
        [CHR 0x5C, CHR ''u'', CHR ''0'', CHR ''0'', hexDigit (of_char c div 16), hexDigit (of_char c mod 16)]
      else [c])"

definition quoteString :: "string \<Rightarrow> string" where
  "quoteString s = dquote # concat (map escapeChar s) @ [dquote]"

fun numberJson :: "number \<Rightarrow> string" where
  "numberJson (Num r) = showRat r"
| "numberJson _ = ''null''"

fun commaSep :: "string list \<Rightarrow> string" where
  "commaSep [] = []"
| "commaSep [x] = x"
| "commaSep (x # y # ys) = x @ CHR '','' # commaSep (y # ys)"

fun refStringify :: "json \<Rightarrow> string" where
  "refStringify JNull = ''null''"
| "refStringify (JBool b) = (if b then ''true'' else ''false'')"
| "refStringify (JNum n) = numberJson n"
| "refStringify (JStr s) = quoteString s"
| "refStringify (JArr xs) = CHR ''['' # commaSep (map refStringify xs) @ '']''"
| "refStringify (JObj kvs) =
     CHR ''{'' # commaSep (map (\<lambda>(k, v). quoteString k @ CHR '':'' # refStringify v) kvs) @ ''}''"

definition refPlatform :: platform where
  "refPlatform = \<lparr>JSON_parse = refParse, JSON_stringify = refStringify\<rparr>"

section \<open>Readings of the specification and example inputs\<close>

text \<open>
  The value of one usage field as the specification words it: the header is present and
  parses as an integer.
\<close>

definition usageOf :: "Headers \<Rightarrow> string \<Rightarrow> int option" where
  "usageOf hs name = (case headersGet hs name of None \<Rightarrow> None | Some v \<Rightarrow> parseInt v)"

text \<open>
  \<open>wrapRequestBody\<close> on a store of objects, to say which object it writes to. An address
  is an index into the store; the spread allocates the copy at the next free address
  and the deletion writes to the copy. \<open>None\<close> when the argument is no object of the store.
\<close>

type_synonym store = "(string \<times> json) list list"

record WrappedRef =
  ref_project :: string
  ref_model :: string
  ref_request :: nat

definition wrapRequestBody_store :: "store \<Rightarrow> nat \<Rightarrow> string \<Rightarrow> string \<Rightarrow> (store \<times> WrappedRef) option" where
  "wrapRequestBody_store h b projId modelName =
     (if b < length h then
        (let requestPayload = length h;
             h1 = h @ [h ! b];
             h2 = h1[requestPayload := AList.delete ''model'' (h1 ! requestPayload)]
         in Some (h2, \<lparr>ref_project = projId, ref_model = modelName, ref_request = requestPayload\<rparr>))
      else None)"

text \<open>Constants for running the transformers on concrete inputs.\<close>

definition exampleConstants :: constants where
  "exampleConstants =
     \<lparr>ANTIGRAVITY_ENDPOINT_FALLBACKS =
        [''https://daily.example'', ''https://autopush.example'', ''https://prod.example''],
      ANTIGRAVITY_API_VERSION = ''v1internal'',
      HEADER_User_Agent = ''antigravity'',
      HEADER_X_Goog_Api_Client = ''client'',
      HEADER_Client_Metadata = ''metadata''\<rparr>"

text \<open>
  A property read as a string: the string when the property holds a non-empty one. The
  second predicate says that a property is absent or holds a string.
\<close>

definition stringField :: "json option \<Rightarrow> string option" where
  "stringField x = (case x of Some (JStr s) \<Rightarrow> (if s \<noteq> [] then Some s else None) | _ \<Rightarrow> None)"

definition absentOrString :: "json option \<Rightarrow> bool" where
  "absentOrString x = (case x of None \<Rightarrow> True | Some (JStr s) \<Rightarrow> True | _ \<Rightarrow> False)"

text \<open>The value has a nested error object: \<open>parsed.error && typeof parsed.error === "object"\<close>.\<close>

definition hasErrorObject :: "json \<Rightarrow> bool" where
  "hasErrorObject parsed =
     (case field parsed ''error'' of Some e \<Rightarrow> truthy e \<and> isObjectType e | None \<Rightarrow> False)"






text \<open>
  The outcome of a call as the specification classifies it: retryable when the call
  failed with no response, or the status is 0, 429 or in \<open>[500, 600)\<close>. An attempt that
  issued no request ended in an exception and has no response either.
\<close>

definition retryableOutcome :: "exn + Response \<Rightarrow> bool" where
  "retryableOutcome outcome =
     (case outcome of
        Inl e \<Rightarrow> True
      | Inr r \<Rightarrow> status r = 0 \<or> status r = 429 \<or> (500 \<le> status r \<and> status r < 600))"

definition attemptRetryable :: "collaborators \<Rightarrow> nat \<Rightarrow> attempt \<Rightarrow> bool" where
  "attemptRetryable c i a =
     (case a of NotIssued e \<Rightarrow> True | Issued req \<Rightarrow> retryableOutcome (network c i req))"

fun isIssued :: "attempt \<Rightarrow> bool" where
  "isIssued (Issued req) = True"
| "isIssued (NotIssued e) = False"

text \<open>The credentials are present and the token needs no refresh or the refresh succeeds.\<close>

definition authReady :: "collaborators \<Rightarrow> string \<Rightarrow> cache \<Rightarrow> bool" where
  "authReady c providerId st =
     (case getAuth c of
        Inl e \<Rightarrow> False
      | Inr auth \<Rightarrow>
          truthyStr (access auth) \<and> truthyStr (refresh auth)
          \<and> snd (refreshIfExpired c providerId (parseStoredToken c (the (refresh auth)))
                   (seedTokens c st auth (parseStoredToken c (the (refresh auth))))) = None)"

text \<open>The project identifier that a call resolves, read from the cache it leaves.\<close>

definition resolvedProject :: "collaborators \<Rightarrow> cache \<Rightarrow> string" where
  "resolvedProject c st' =
     (case getAuth c of
        Inl e \<Rightarrow> []
      | Inr auth \<Rightarrow>
          (case orElse (projectId (parseStoredToken c (the (refresh auth)))) (cachedProjectId st') of
             Some s \<Rightarrow> s | None \<Rightarrow> []))"

text \<open>
  Collaborators for running the interceptor on concrete inputs: credentials that are
  present, a token that is not expired, no tools, no thinking. The network is given.
\<close>

definition exampleCollaborators :: "(nat \<Rightarrow> FetchRequest \<Rightarrow> exn + Response) \<Rightarrow> collaborators" where
  "exampleCollaborators net =
     \<lparr>getAuth = Inr \<lparr>access = Some ''access'', refresh = Some ''refresh'', expires = None\<rparr>,
      client_set = (\<lambda>provider auth. None),
      parseStoredToken = (\<lambda>s. \<lparr>refreshToken = s, projectId = None, managedProjectId = None\<rparr>),
      formatTokenForStorage = (\<lambda>t pid m. t),
      isTokenExpired = (\<lambda>t. False),
      refreshAccessToken = (\<lambda>t. Inl (Error ''no refresh'')),
      fetchProjectContext = (\<lambda>t. Some ''project-1''),
      normalizeToolsForGemini = (\<lambda>ts. Inr None),
      shouldIncludeThinking = (\<lambda>m. False),
      extractThinkingBlocks = (\<lambda>v. Inr False),
      transformResponseThinking = (\<lambda>v. Inr v),
      Date_now = 1000000,
      network = net\<rparr>"

definition emptyCache :: cache where
  "emptyCache = \<lparr>cachedTokens = None, cachedProjectId = None\<rparr>"

definition exampleUrl :: string where
  "exampleUrl = ''https://host/v1beta/models/gemini-3-pro:generateContent''"

definition exampleInit :: RequestInit where
  \<open>exampleInit = \<lparr>init_method = Some ''POST'', init_body = Some (BodyString ''{"model":"gemini-3-pro","contents":[]}'')\<rparr>\<close>

definition jsonResponse :: "nat \<Rightarrow> string \<Rightarrow> Response" where
  "jsonResponse st text =
     \<lparr>status = st, statusText = [], resp_headers = [(''content-type'', ''application/json'')],
      resp_body = Inr text, bodyUsed = False\<rparr>"


text \<open>A network that answers every request with 429.\<close>

definition rateLimitedNetwork :: "nat \<Rightarrow> FetchRequest \<Rightarrow> exn + Response" where
  \<open>rateLimitedNetwork i req = Inr (jsonResponse 429 ''{"error":{"message":"quota"}}'')\<close>

text \<open>A network that answers 400 with an error body whose details hold \<open>null\<close>.\<close>

definition nullDetailNetwork :: "nat \<Rightarrow> FetchRequest \<Rightarrow> exn + Response" where
  \<open>nullDetailNetwork i req = Inr (jsonResponse 400 ''{"error":{"details":[null]}}'')\<close>

text \<open>A network that answers 404 with a body whose read rejects, the connection being lost.\<close>

definition brokenBodyNetwork :: "nat \<Rightarrow> FetchRequest \<Rightarrow> exn + Response" where
  "brokenBodyNetwork i req =
     Inr \<lparr>status = 404, statusText = ''Not Found'',
          resp_headers = [(''content-type'', ''application/json'')],
          resp_body = Inl (TypeError ''terminated''), bodyUsed = False\<rparr>"



section \<open>Usage extraction from headers\<close>

lemma parseInt_empty: "parseInt [] = None"
  by (simp add: parseInt_def trimStart_def)

lemma usageField_eq: "usageField h = (case h of None \<Rightarrow> None | Some v \<Rightarrow> parseInt v)"
  by (cases h) (auto simp: usageField_def parseInt_empty)

lemma usageField_falsy: "\<not> truthyStr h \<Longrightarrow> usageField h = None"
  by (simp add: usageField_def)

lemma usage_headers_eq:
  "extractUsageFromHeaders hs =
     (if usageOf hs ''x-antigravity-cached-content-token-count'' = None
         \<and> usageOf hs ''x-antigravity-total-token-count'' = None
         \<and> usageOf hs ''x-antigravity-prompt-token-count'' = None
         \<and> usageOf hs ''x-antigravity-candidates-token-count'' = None
      then None
      else Some \<lparr>cachedContentTokenCount = usageOf hs ''x-antigravity-cached-content-token-count'',
                 totalTokenCount = usageOf hs ''x-antigravity-total-token-count'',
                 promptTokenCount = usageOf hs ''x-antigravity-prompt-token-count'',
                 candidatesTokenCount = usageOf hs ''x-antigravity-candidates-token-count''\<rparr>)"
  unfolding extractUsageFromHeaders_def usageOf_def Let_def usageField_eq[symmetric]
  by (auto simp: usageField_falsy)

text \<open>
  Claim C9. Usage extraction from the four token-count headers gives nothing when all
  four headers are absent. Otherwise each field of the result is set exactly when its
  header is present and parses as an integer, a header that does not parse leaving its
  field out, and the result as a whole is nothing when no header parses.
\<close>

theorem C9_usage_from_headers:
  "(headersGet hs ''x-antigravity-cached-content-token-count'' = None
      \<and> headersGet hs ''x-antigravity-total-token-count'' = None
      \<and> headersGet hs ''x-antigravity-prompt-token-count'' = None
      \<and> headersGet hs ''x-antigravity-candidates-token-count'' = None
    \<longrightarrow> extractUsageFromHeaders hs = None)
   \<and> extractUsageFromHeaders hs =
     (if usageOf hs ''x-antigravity-cached-content-token-count'' = None
         \<and> usageOf hs ''x-antigravity-total-token-count'' = None
         \<and> usageOf hs ''x-antigravity-prompt-token-count'' = None
         \<and> usageOf hs ''x-antigravity-candidates-token-count'' = None
      then None
      else Some \<lparr>cachedContentTokenCount = usageOf hs ''x-antigravity-cached-content-token-count'',
                 totalTokenCount = usageOf hs ''x-antigravity-total-token-count'',
                 promptTokenCount = usageOf hs ''x-antigravity-prompt-token-count'',
                 candidatesTokenCount = usageOf hs ''x-antigravity-candidates-token-count''\<rparr>)"
proof -
  have "extractUsageFromHeaders hs = None"
    if "headersGet hs ''x-antigravity-cached-content-token-count'' = None"
      and "headersGet hs ''x-antigravity-total-token-count'' = None"
      and "headersGet hs ''x-antigravity-prompt-token-count'' = None"
      and "headersGet hs ''x-antigravity-candidates-token-count'' = None"
    using that by (simp add: usage_headers_eq usageOf_def)
  then show ?thesis
    using usage_headers_eq [of hs] by blast
qed

theorem C9_usage_from_headers_witness:
  "headersGet [(''content-type'', ''text/plain'')] ''x-antigravity-cached-content-token-count'' = None
   \<and> headersGet [(''content-type'', ''text/plain'')] ''x-antigravity-total-token-count'' = None
   \<and> headersGet [(''content-type'', ''text/plain'')] ''x-antigravity-prompt-token-count'' = None
   \<and> headersGet [(''content-type'', ''text/plain'')] ''x-antigravity-candidates-token-count'' = None
   \<and> extractUsageFromHeaders [(''content-type'', ''text/plain'')] = None
   \<and> extractUsageFromHeaders
        [(''x-antigravity-total-token-count'', ''12''), (''x-antigravity-prompt-token-count'', ''abc'')]
      = Some \<lparr>cachedContentTokenCount = None, totalTokenCount = Some 12,
               promptTokenCount = None, candidatesTokenCount = None\<rparr>"
proof -
  have a: "headersGet [(''content-type'', ''text/plain'')] ''x-antigravity-cached-content-token-count'' = None"
    by code_simp
  have b: "headersGet [(''content-type'', ''text/plain'')] ''x-antigravity-total-token-count'' = None"
    by code_simp
  have c: "headersGet [(''content-type'', ''text/plain'')] ''x-antigravity-prompt-token-count'' = None"
    by code_simp
  have d: "headersGet [(''content-type'', ''text/plain'')] ''x-antigravity-candidates-token-count'' = None"
    by code_simp
  have e: "extractUsageFromHeaders [(''content-type'', ''text/plain'')] = None"
    using C9_usage_from_headers [of "[(''content-type'', ''text/plain'')]"] a b c d by blast
  have f: "usageOf [(''x-antigravity-total-token-count'', ''12''), (''x-antigravity-prompt-token-count'', ''abc'')]
             ''x-antigravity-total-token-count'' = Some 12"
    by code_simp
  have g: "usageOf [(''x-antigravity-total-token-count'', ''12''), (''x-antigravity-prompt-token-count'', ''abc'')]
             ''x-antigravity-prompt-token-count'' = None"
    by code_simp
  have h: "usageOf [(''x-antigravity-total-token-count'', ''12''), (''x-antigravity-prompt-token-count'', ''abc'')]
             ''x-antigravity-cached-content-token-count'' = None"
    by code_simp
  have i: "usageOf [(''x-antigravity-total-token-count'', ''12''), (''x-antigravity-prompt-token-count'', ''abc'')]
             ''x-antigravity-candidates-token-count'' = None"
    by code_simp
  have j: "extractUsageFromHeaders
        [(''x-antigravity-total-token-count'', ''12''), (''x-antigravity-prompt-token-count'', ''abc'')]
      = Some \<lparr>cachedContentTokenCount = None, totalTokenCount = Some 12,
               promptTokenCount = None, candidatesTokenCount = None\<rparr>"
    using C9_usage_from_headers
      [of "[(''x-antigravity-total-token-count'', ''12''), (''x-antigravity-prompt-token-count'', ''abc'')]"]
    by (simp add: f g h i)
  show ?thesis using a b c d e j by blast
qed

section \<open>Model resolution\<close>

lemma extractModelFromBody_nonempty: "extractModelFromBody b = Some m \<Longrightarrow> m \<noteq> []"
  by (auto simp: extractModelFromBody_def split: option.splits json.splits if_splits)

lemma modelSegmentHere_nonempty: "modelSegmentHere s = Some m \<Longrightarrow> m \<noteq> []"
  by (auto simp: modelSegmentHere_def Let_def split: if_splits)

lemma extractModelFromUrl_nonempty: "extractModelFromUrl u = Some m \<Longrightarrow> m \<noteq> []"
  by (induction u) (auto split: option.splits dest: modelSegmentHere_nonempty)

lemma effectiveModel_eq:
  "effectiveModel u b modelName =
     (if truthyStr modelName then the modelName
      else (case extractModelFromBody b of
              Some m \<Rightarrow> m
            | None \<Rightarrow> (case extractModelFromUrl u of Some m \<Rightarrow> m | None \<Rightarrow> fallbackModel)))"
  by (cases modelName; cases "extractModelFromBody b"; cases "extractModelFromUrl u")
     (auto simp: effectiveModel_def orElse_def dest: extractModelFromBody_nonempty extractModelFromUrl_nonempty)

lemma transformRequest_model:
  "model (body (transformRequest k u b tok pid modelName ep)) = effectiveModel u b modelName"
  by (simp add: transformRequest_def Let_def wrapRequestBody_def)

lemma startsWith_append: "startsWith (p @ s) p"
  by (induction p) auto

lemma modelSegmentHere_none: "\<not> startsWith s ''/models/'' \<Longrightarrow> modelSegmentHere s = None"
  by (simp add: modelSegmentHere_def)

lemma modelSegmentHere_match:
  assumes "m \<noteq> []" "CHR '':'' \<notin> set m"
  shows "modelSegmentHere (''/models/'' @ m @ '':'' @ post) = Some m"
proof -
  have tw: "takeWhile (\<lambda>c. c \<noteq> CHR '':'') (m @ CHR '':'' # post) = m"
    using assms(2) by (induction m) auto
  have sw: "startsWith ((''/models/'' @ m @ '':'' @ post)) ''/models/''"
    by (rule startsWith_append)
  show ?thesis
    unfolding modelSegmentHere_def using sw assms(1) by (simp add: tw)
qed

lemma extractModelFromUrl_match:
  assumes "m \<noteq> []" "CHR '':'' \<notin> set m"
    and "\<forall>i < length pre. \<not> startsWith (drop i (pre @ ''/models/'' @ m @ '':'' @ post)) ''/models/''"
  shows "extractModelFromUrl (pre @ ''/models/'' @ m @ '':'' @ post) = Some m"
  using assms(3)
proof (induction pre)
  case Nil
  have "modelSegmentHere (''/models/'' @ m @ '':'' @ post) = Some m"
    using assms(1,2) by (rule modelSegmentHere_match)
  then show ?case by simp
next
  case (Cons c pre)
  have "\<not> startsWith (drop 0 ((c # pre) @ ''/models/'' @ m @ '':'' @ post)) ''/models/''"
    using Cons.prems by blast
  then have "\<not> startsWith (c # pre @ ''/models/'' @ m @ '':'' @ post) ''/models/''"
    by simp
  then have no: "modelSegmentHere (c # pre @ ''/models/'' @ m @ '':'' @ post) = None"
    by (rule modelSegmentHere_none)
  have "\<forall>i<length pre. \<not> startsWith (drop i (pre @ ''/models/'' @ m @ '':'' @ post)) ''/models/''"
  proof (intro allI impI)
    fix i assume "i < length pre"
    then have "Suc i < length (c # pre)" by simp
    with Cons.prems have "\<not> startsWith (drop (Suc i) ((c # pre) @ ''/models/'' @ m @ '':'' @ post)) ''/models/''"
      by blast
    then show "\<not> startsWith (drop i (pre @ ''/models/'' @ m @ '':'' @ post)) ''/models/''" by simp
  qed
  then have "extractModelFromUrl (pre @ ''/models/'' @ m @ '':'' @ post) = Some m"
    by (rule Cons.IH)
  with no show ?case by simp
qed

text \<open>
  Claim C6. The model that the request transformer puts into the envelope is the explicit
  argument when it is given and not empty; otherwise the trimmed string in the body's
  model field when that is not blank; otherwise the segment of a URL of the form
  \<open>.../models/{model}:{action}\<close>; otherwise the fixed fallback. With all four sources given
  and in conflict, the explicit argument is the result.
\<close>

theorem C6_model_precedence:
  "model (body (transformRequest k u b tok pid modelName ep)) =
     (if truthyStr modelName then the modelName
      else (case extractModelFromBody b of
              Some m \<Rightarrow> m
            | None \<Rightarrow> (case extractModelFromUrl u of
                          Some m \<Rightarrow> m
                        | None \<Rightarrow> ''gemini-3-pro-preview'')))
   \<and> (\<forall>m. modelName = Some m \<and> m \<noteq> [] \<longrightarrow>
          model (body (transformRequest k u b tok pid modelName ep)) = m)
   \<and> (\<forall>s. field b ''model'' = Some (JStr s) \<and> trim s \<noteq> [] \<longrightarrow>
          extractModelFromBody b = Some (trim s))
   \<and> (\<forall>pre m post. u = pre @ ''/models/'' @ m @ '':'' @ post \<and> m \<noteq> [] \<and> CHR '':'' \<notin> set m
          \<and> (\<forall>i < length pre. \<not> startsWith (drop i u) ''/models/'') \<longrightarrow>
          extractModelFromUrl u = Some m)"
proof (intro conjI allI impI)
  show a: "model (body (transformRequest k u b tok pid modelName ep)) =
     (if truthyStr modelName then the modelName
      else (case extractModelFromBody b of
              Some m \<Rightarrow> m
            | None \<Rightarrow> (case extractModelFromUrl u of
                          Some m \<Rightarrow> m
                        | None \<Rightarrow> ''gemini-3-pro-preview'')))"
    by (simp add: transformRequest_model effectiveModel_eq fallbackModel_def split: option.splits)
  show "model (body (transformRequest k u b tok pid modelName ep)) = m"
    if "modelName = Some m \<and> m \<noteq> []" for m
    using that by (simp add: transformRequest_model effectiveModel_eq)
  show "extractModelFromBody b = Some (trim s)"
    if "field b ''model'' = Some (JStr s) \<and> trim s \<noteq> []" for s
    using that by (simp add: extractModelFromBody_def)
  show "extractModelFromUrl u = Some m"
    if "u = pre @ ''/models/'' @ m @ '':'' @ post \<and> m \<noteq> [] \<and> CHR '':'' \<notin> set m
          \<and> (\<forall>i < length pre. \<not> startsWith (drop i u) ''/models/'')" for pre m post
    using that extractModelFromUrl_match [of m pre post] by blast
qed

theorem C6_model_precedence_witness:
  "model (body (transformRequest exampleConstants ''https://host/v1beta/models/url-model:generateContent''
       (JObj [(''model'', JStr ''body-model'')]) ''token'' ''project'' (Some ''arg-model'') None)) = ''arg-model''
   \<and> model (body (transformRequest exampleConstants ''https://host/v1beta/models/url-model:generateContent''
       (JObj [(''model'', JStr '' body-model '')]) ''token'' ''project'' None None)) = ''body-model''
   \<and> model (body (transformRequest exampleConstants ''https://host/v1beta/models/url-model:generateContent''
       (JObj []) ''token'' ''project'' (Some []) None)) = ''url-model''
   \<and> model (body (transformRequest exampleConstants ''https://host/v1beta/chat''
       (JObj []) ''token'' ''project'' None None)) = ''gemini-3-pro-preview''"
proof -
  let ?u = "''https://host/v1beta/models/url-model:generateContent''"
  have a: "model (body (transformRequest exampleConstants ?u
       (JObj [(''model'', JStr ''body-model'')]) ''token'' ''project'' (Some ''arg-model'') None)) = ''arg-model''"
    using C6_model_precedence [of exampleConstants ?u "JObj [(''model'', JStr ''body-model'')]"
        "''token''" "''project''" "Some ''arg-model''" None]
    by simp
  have tr: "trim '' body-model '' = ''body-model''" by code_simp
  have fb: "field (JObj [(''model'', JStr '' body-model '')]) ''model'' = Some (JStr '' body-model '')
              \<and> trim '' body-model '' \<noteq> []"
    unfolding tr by simp
  have eb: "extractModelFromBody (JObj [(''model'', JStr '' body-model '')]) = Some ''body-model''"
    using C6_model_precedence [of exampleConstants ?u "JObj [(''model'', JStr '' body-model '')]"
        "''token''" "''project''" None None] fb tr by metis
  have b: "model (body (transformRequest exampleConstants ?u
       (JObj [(''model'', JStr '' body-model '')]) ''token'' ''project'' None None)) = ''body-model''"
    using C6_model_precedence [of exampleConstants ?u "JObj [(''model'', JStr '' body-model '')]"
        "''token''" "''project''" None None, THEN conjunct1]
    unfolding eb by simp
  have dec: "?u = ''https://host/v1beta'' @ ''/models/'' @ ''url-model'' @ '':'' @ ''generateContent''
      \<and> ''url-model'' \<noteq> [] \<and> CHR '':'' \<notin> set ''url-model''
      \<and> (\<forall>i < length ''https://host/v1beta''. \<not> startsWith (drop i ?u) ''/models/'')"
    by code_simp
  have eu: "extractModelFromUrl ?u = Some ''url-model''"
    using C6_model_precedence [of exampleConstants ?u "JObj []" "''token''" "''project''" "Some []" None] dec
    by blast
  have nb: "extractModelFromBody (JObj []) = None" by code_simp
  have c: "model (body (transformRequest exampleConstants ?u
       (JObj []) ''token'' ''project'' (Some []) None)) = ''url-model''"
    using C6_model_precedence [of exampleConstants ?u "JObj []" "''token''" "''project''" "Some []" None,
        THEN conjunct1]
    unfolding eu nb by simp
  have nu: "extractModelFromUrl ''https://host/v1beta/chat'' = None" by code_simp
  have d: "model (body (transformRequest exampleConstants ''https://host/v1beta/chat''
       (JObj []) ''token'' ''project'' None None)) = ''gemini-3-pro-preview''"
    using C6_model_precedence [of exampleConstants "''https://host/v1beta/chat''" "JObj []" "''token''" "''project''" None None,
        THEN conjunct1]
    unfolding nu nb by simp
  show ?thesis using a b c d by blast
qed

section \<open>The request envelope\<close>

lemma delete_filter: "AList.delete k kvs = filter (\<lambda>(k', v). k' \<noteq> k) kvs"
  by (induction kvs) (auto simp: AList.delete_eq)

text \<open>
  Claim C8. Wrapping a body object gives the envelope of the project, the model and a
  request that is the body without its \<open>model\<close> key, every other key and value as it was
  and in the same order. On a store of objects the request is a new object: the body,
  and every other object that existed, is the same after the wrap as before.
\<close>

theorem C8_wrap:
  "wrapRequestBody (JObj kvs) p m
     = \<lparr>project = p, model = m, request = filter (\<lambda>(key, v). key \<noteq> ''model'') kvs\<rparr>
   \<and> (\<forall>key. map_of (request (wrapRequestBody (JObj kvs) p m)) key
          = (if key = ''model'' then None else map_of kvs key))
   \<and> (\<forall>h b. b < length h \<longrightarrow>
         (\<exists>h' w. wrapRequestBody_store h b p m = Some (h', w)
            \<and> ref_project w = p \<and> ref_model w = m
            \<and> ref_request w \<noteq> b
            \<and> h' ! ref_request w = filter (\<lambda>(key, v). key \<noteq> ''model'') (h ! b)
            \<and> length h' = Suc (length h)
            \<and> (\<forall>a < length h. h' ! a = h ! a)))"
proof (intro conjI allI impI)
  show "wrapRequestBody (JObj kvs) p m
     = \<lparr>project = p, model = m, request = filter (\<lambda>(key, v). key \<noteq> ''model'') kvs\<rparr>"
    by (simp add: wrapRequestBody_def delete_filter)
  show "map_of (request (wrapRequestBody (JObj kvs) p m)) key
          = (if key = ''model'' then None else map_of kvs key)" for key
    by (simp add: wrapRequestBody_def delete_conv)
  show "\<exists>h' w. wrapRequestBody_store h b p m = Some (h', w)
            \<and> ref_project w = p \<and> ref_model w = m
            \<and> ref_request w \<noteq> b
            \<and> h' ! ref_request w = filter (\<lambda>(key, v). key \<noteq> ''model'') (h ! b)
            \<and> length h' = Suc (length h)
            \<and> (\<forall>a < length h. h' ! a = h ! a)" if "b < length h" for h b
    using that by (simp add: wrapRequestBody_store_def Let_def delete_filter nth_append)
qed

theorem C8_wrap_witness:
  "(0::nat) < length [[(''model'', JStr ''m''), (''messages'', JArr [])]]
   \<and> wrapRequestBody_store [[(''model'', JStr ''m''), (''messages'', JArr [])]] 0 ''proj'' ''gemini''
       = Some ([[(''model'', JStr ''m''), (''messages'', JArr [])], [(''messages'', JArr [])]],
               \<lparr>ref_project = ''proj'', ref_model = ''gemini'', ref_request = 1\<rparr>)
   \<and> wrapRequestBody (JObj [(''model'', JStr ''m''), (''messages'', JArr [])]) ''proj'' ''gemini''
       = \<lparr>project = ''proj'', model = ''gemini'', request = [(''messages'', JArr [])]\<rparr>"
proof -
  let ?h = "[[(''model'', JStr ''m''), (''messages'', JArr [])]]"
  have l: "(0::nat) < length ?h" by simp
  obtain h' w where hw: "wrapRequestBody_store ?h 0 ''proj'' ''gemini'' = Some (h', w)"
      "ref_project w = ''proj''" "ref_model w = ''gemini''"
      "h' ! ref_request w = filter (\<lambda>(key, v). key \<noteq> ''model'') (?h ! 0)"
      "length h' = Suc (length ?h)" "\<forall>a < length ?h. h' ! a = ?h ! a"
    using C8_wrap [of "[(''model'', JStr ''m''), (''messages'', JArr [])]" "''proj''" "''gemini''"] l
    by blast
  have s: "wrapRequestBody_store ?h 0 ''proj'' ''gemini''
       = Some ([[(''model'', JStr ''m''), (''messages'', JArr [])], [(''messages'', JArr [])]],
               \<lparr>ref_project = ''proj'', ref_model = ''gemini'', ref_request = 1\<rparr>)"
    by code_simp
  have p: "wrapRequestBody (JObj [(''model'', JStr ''m''), (''messages'', JArr [])]) ''proj'' ''gemini''
       = \<lparr>project = ''proj'', model = ''gemini'', request = [(''messages'', JArr [])]\<rparr>"
    using C8_wrap [of "[(''model'', JStr ''m''), (''messages'', JArr [])]" "''proj''" "''gemini''"]
    by simp
  show ?thesis using l s p by blast
qed

section \<open>Server-sent event streams\<close>

lemma split_lines_nonempty: "split_lines s \<noteq> []"
  by (induction s) (auto split: list.splits)

lemma split_lines_no_newline: "l \<in> set (split_lines s) \<Longrightarrow> newline \<notin> set l"
  by (induction s arbitrary: l) (auto split: list.splits if_splits)

lemma join_split_lines: "join_lines (split_lines s) = s"
proof (induction s)
  case Nil
  then show ?case by simp
next
  case (Cons c s)
  show ?case
  proof (cases "c = newline")
    case True
    obtain l ls where "split_lines s = l # ls"
      using split_lines_nonempty [of s] by (cases "split_lines s") auto
    with True Cons show ?thesis by simp
  next
    case False
    obtain l ls where sp: "split_lines s = l # ls"
      using split_lines_nonempty [of s] by (cases "split_lines s") auto
    with False Cons show ?thesis by (cases ls) auto
  qed
qed

lemma split_lines_single: "newline \<notin> set l \<Longrightarrow> split_lines l = [l]"
  by (induction l) auto

lemma split_lines_append:
  "newline \<notin> set l \<Longrightarrow> split_lines (l @ newline # r) = l # split_lines r"
  by (induction l) auto

lemma split_join_lines:
  "ls \<noteq> [] \<Longrightarrow> (\<forall>l \<in> set ls. newline \<notin> set l) \<Longrightarrow> split_lines (join_lines ls) = ls"
proof (induction ls rule: join_lines.induct)
  case 1
  then show ?case by simp
next
  case (2 l)
  then show ?case by (simp add: split_lines_single)
next
  case (3 l m ls)
  then show ?case by (simp add: split_lines_append)
qed

lemma sse_line_other: "\<not> startsWith line ''data:'' \<Longrightarrow> transformSseLine p line = line"
  by (simp add: transformSseLine_def)

lemma sse_line_kept:
  assumes "startsWith line ''data:''"
    and "trim (drop 5 line) = [] \<or> trim (drop 5 line) = ''[DONE]''
         \<or> JSON_parse p (trim (drop 5 line)) = None
         \<or> (\<exists>v. JSON_parse p (trim (drop 5 line)) = Some v \<and> field v ''response'' = None)"
  shows "transformSseLine p line = line"
  using assms unfolding transformSseLine_def Let_def
  by (auto split: option.splits)

lemma sse_line_unwrapped:
  assumes "startsWith line ''data:''"
    and "trim (drop 5 line) \<noteq> []" and "trim (drop 5 line) \<noteq> ''[DONE]''"
    and "JSON_parse p (trim (drop 5 line)) = Some v" and "field v ''response'' = Some inner"
  shows "transformSseLine p line = ''data: '' @ JSON_stringify p inner"
proof -
  have "v \<noteq> JNull" using assms(5) by auto
  then show ?thesis
    using assms unfolding transformSseLine_def Let_def by simp
qed

lemma sse_line_cases:
  "transformSseLine p line = line
   \<or> (\<exists>inner. transformSseLine p line = ''data: '' @ JSON_stringify p inner)"
  unfolding transformSseLine_def Let_def by (auto split: option.splits)

lemma sse_line_no_newline:
  assumes "\<forall>v. newline \<notin> set (JSON_stringify p v)" and "newline \<notin> set line"
  shows "newline \<notin> set (transformSseLine p line)"
proof -
  have d: "newline \<notin> set ''data: ''" by (simp add: newline_def)
  consider "transformSseLine p line = line"
    | inner where "transformSseLine p line = ''data: '' @ JSON_stringify p inner"
    using sse_line_cases [of p line] by blast
  then show ?thesis
  proof cases
    case 1
    then show ?thesis using assms(2) by simp
  next
    case 2
    have "newline \<notin> set (''data: '' @ JSON_stringify p inner)"
      unfolding set_append using d assms(1) by blast
    then show ?thesis unfolding 2 .
  qed
qed

lemma sse_payload_lines:
  assumes "\<forall>v. newline \<notin> set (JSON_stringify p v)"
  shows "split_lines (transformStreamingPayload p payload)
           = map (transformSseLine p) (split_lines payload)"
  unfolding transformStreamingPayload_def
proof (rule split_join_lines)
  show "map (transformSseLine p) (split_lines payload) \<noteq> []"
    by (simp add: split_lines_nonempty)
  show "\<forall>l \<in> set (map (transformSseLine p) (split_lines payload)). newline \<notin> set l"
  proof
    fix l assume "l \<in> set (map (transformSseLine p) (split_lines payload))"
    then obtain l0 where l0: "l0 \<in> set (split_lines payload)" "l = transformSseLine p l0"
      by auto
    have "newline \<notin> set l0" using l0(1) by (rule split_lines_no_newline)
    with assms show "newline \<notin> set l" unfolding l0(2) by (rule sse_line_no_newline)
  qed
qed

lemma sse_example:
  assumes \<open>JSON_parse p ''{"response":{"a":1}}''
             = Some (JObj [(''response'', JObj [(''a'', JNum (Num 1))])])\<close>
    and \<open>JSON_stringify p (JObj [(''a'', JNum (Num 1))]) = ''{"a":1}''\<close>
  shows \<open>transformStreamingPayload p
           (join_lines [''event: ping'', [], ''data: {"response":{"a":1}}'', ''data: [DONE]''])
         = join_lines [''event: ping'', [], ''data: {"a":1}'', ''data: [DONE]'']\<close>
proof -
  have sp: \<open>split_lines (join_lines [''event: ping'', [], ''data: {"response":{"a":1}}'', ''data: [DONE]''])
              = [''event: ping'', [], ''data: {"response":{"a":1}}'', ''data: [DONE]'']\<close>
    by code_simp
  have l1: "transformSseLine p ''event: ping'' = ''event: ping''"
    by (rule sse_line_other) code_simp
  have l2: "transformSseLine p [] = []"
    by (rule sse_line_other) code_simp
  have t3: \<open>trim (drop 5 ''data: {"response":{"a":1}}'') = ''{"response":{"a":1}}''\<close>
    by code_simp
  have l3: \<open>transformSseLine p ''data: {"response":{"a":1}}'' = ''data: '' @ JSON_stringify p (JObj [(''a'', JNum (Num 1))])\<close>
  proof (rule sse_line_unwrapped)
    show \<open>startsWith ''data: {"response":{"a":1}}'' ''data:''\<close> by code_simp
    show \<open>trim (drop 5 ''data: {"response":{"a":1}}'') \<noteq> []\<close> unfolding t3 by simp
    show \<open>trim (drop 5 ''data: {"response":{"a":1}}'') \<noteq> ''[DONE]''\<close> unfolding t3 by simp
    show \<open>JSON_parse p (trim (drop 5 ''data: {"response":{"a":1}}'')) = Some (JObj [(''response'', JObj [(''a'', JNum (Num 1))])])\<close>
      unfolding t3 by (rule assms(1))
    show "field (JObj [(''response'', JObj [(''a'', JNum (Num 1))])]) ''response'' = Some (JObj [(''a'', JNum (Num 1))])"
      by simp
  qed
  have t4: "trim (drop 5 ''data: [DONE]'') = ''[DONE]''" by code_simp
  have l4: "transformSseLine p ''data: [DONE]'' = ''data: [DONE]''"
  proof (rule sse_line_kept)
    show "startsWith ''data: [DONE]'' ''data:''" by code_simp
    show "trim (drop 5 ''data: [DONE]'') = [] \<or> trim (drop 5 ''data: [DONE]'') = ''[DONE]''
         \<or> JSON_parse p (trim (drop 5 ''data: [DONE]'')) = None
         \<or> (\<exists>v. JSON_parse p (trim (drop 5 ''data: [DONE]'')) = Some v \<and> field v ''response'' = None)"
      using t4 by blast
  qed
  have \<open>map (transformSseLine p) [''event: ping'', [], ''data: {"response":{"a":1}}'', ''data: [DONE]'']
          = [''event: ping'', [], ''data: {"a":1}'', ''data: [DONE]'']\<close>
    unfolding list.map l1 l2 l3 l4 assms(2) by simp
  then show ?thesis
    unfolding transformStreamingPayload_def sp by (rule arg_cong)
qed

lemma char_of_neq_newline: "n < 256 \<Longrightarrow> n \<noteq> 10 \<Longrightarrow> (char_of (n::nat) :: char) \<noteq> newline"
proof
  assume n: "n < 256" "n \<noteq> 10" and "(char_of n :: char) = newline"
  then have "of_char (char_of n :: char) = (of_char newline :: nat)" by simp
  then have "n mod 256 = 10" by (simp add: newline_def)
  with n show False by simp
qed

lemma digitChar_no_newline: "d < 10 \<Longrightarrow> digitChar d \<noteq> newline"
  unfolding digitChar_def by (rule char_of_neq_newline) auto

lemma natDigits_no_newline:
  "newline \<notin> set acc \<Longrightarrow> newline \<notin> set (natDigits fuel n acc)"
proof (induction fuel arbitrary: n acc)
  case 0
  then show ?case by simp
next
  case (Suc fuel)
  show ?case
  proof (cases "n < 10")
    case True
    then show ?thesis using Suc.prems digitChar_no_newline [of n] by auto
  next
    case False
    have "newline \<notin> set (digitChar (n mod 10) # acc)"
      using Suc.prems digitChar_no_newline [of "n mod 10"] by auto
    then have "newline \<notin> set (natDigits fuel (n div 10) (digitChar (n mod 10) # acc))"
      by (rule Suc.IH)
    with False show ?thesis by simp
  qed
qed

lemma showNat_no_newline: "newline \<notin> set (showNat n)"
  unfolding showNat_def by (rule natDigits_no_newline) simp

lemma fracDigits_no_newline:
  "0 \<le> r \<Longrightarrow> r < 1 \<Longrightarrow> newline \<notin> set (fracDigits fuel r)"
proof (induction fuel arbitrary: r)
  case 0
  then show ?case by simp
next
  case (Suc fuel)
  let ?d = "nat \<lfloor>r * 10\<rfloor>"
  have f0: "0 \<le> \<lfloor>r * 10\<rfloor>" using Suc.prems by simp
  have f1: "\<lfloor>r * 10\<rfloor> < 10" using Suc.prems by (simp add: floor_less_iff)
  have d: "?d < 10" using f0 f1 by linarith
  have eq: "(of_nat ?d :: rat) = of_int \<lfloor>r * 10\<rfloor>" using f0 by simp
  have lo: "0 \<le> r * 10 - of_nat ?d" unfolding eq by (simp add: of_int_floor_le)
  have hi: "r * 10 - of_nat ?d < 1" unfolding eq by linarith
  have "newline \<notin> set (fracDigits fuel (r * 10 - of_nat ?d))"
    using lo hi by (rule Suc.IH)
  then show ?case
    using digitChar_no_newline [OF d] by (simp add: Let_def)
qed

lemma showRat_no_newline: "newline \<notin> set (showRat r)"
proof -
  let ?a = "\<bar>r\<bar>"
  let ?f = "?a - of_int \<lfloor>?a\<rfloor>"
  have "0 \<le> ?f" by (simp add: of_int_floor_le)
  moreover have "?f < 1" by linarith
  ultimately have "newline \<notin> set (fracDigits n ?f)" for n
    by (rule fracDigits_no_newline)
  moreover have "CHR ''.'' \<noteq> newline" "CHR ''-'' \<noteq> newline" by (simp_all add: newline_def)
  ultimately show ?thesis
    unfolding showRat_def Let_def using showNat_no_newline by auto
qed

lemma numberJson_no_newline: "newline \<notin> set (numberJson n)"
proof (cases n)
  case (Num r)
  then show ?thesis using showRat_no_newline [of r] by simp
qed (simp_all add: newline_def)

lemma hexDigit_no_newline: "d < 16 \<Longrightarrow> hexDigit d \<noteq> newline"
proof (cases "d < 10")
  case True
  have "(char_of (48 + d) :: char) \<noteq> newline"
    using True by (intro char_of_neq_newline) auto
  with True show ?thesis by (simp add: hexDigit_def)
next
  case False
  assume "d < 16"
  then have "(char_of (87 + d) :: char) \<noteq> newline"
    by (intro char_of_neq_newline) auto
  with False show ?thesis by (simp add: hexDigit_def)
qed

lemma escapeChar_no_newline: "newline \<notin> set (escapeChar c)"
proof -
  have "(of_char c :: nat) < 256" by simp
  then have h: "hexDigit (of_char c div 16) \<noteq> newline" "hexDigit (of_char c mod 16) \<noteq> newline"
    by (auto intro!: hexDigit_no_newline simp: less_mult_imp_div_less)
  show ?thesis
    unfolding escapeChar_def using h by (auto simp: newline_def dquote_def)
qed

lemma quoteString_no_newline: "newline \<notin> set (quoteString s)"
  unfolding quoteString_def using escapeChar_no_newline by (auto simp: newline_def dquote_def)

lemma commaSep_no_newline:
  "(\<forall>x \<in> set xs. newline \<notin> set x) \<Longrightarrow> newline \<notin> set (commaSep xs)"
  by (induction xs rule: commaSep.induct) (auto simp: newline_def)

lemma refStringify_no_newline: "newline \<notin> set (refStringify v)"
proof (induction v)
  case JNull
  then show ?case by (simp add: newline_def)
next
  case (JBool b)
  then show ?case by (simp add: newline_def)
next
  case (JNum n)
  then show ?case by (simp add: numberJson_no_newline)
next
  case (JStr s)
  then show ?case by (simp add: quoteString_no_newline)
next
  case (JArr xs)
  have "\<forall>x \<in> set (map refStringify xs). newline \<notin> set x"
    using JArr by auto
  then have "newline \<notin> set (commaSep (map refStringify xs))"
    by (rule commaSep_no_newline)
  then show ?case by (simp add: newline_def)
next
  case (JObj kvs)
  have "\<forall>x \<in> set (map (\<lambda>(k, v). quoteString k @ CHR '':'' # refStringify v) kvs). newline \<notin> set x"
  proof
    fix x assume "x \<in> set (map (\<lambda>(k, v). quoteString k @ CHR '':'' # refStringify v) kvs)"
    then obtain k v where kv: "(k, v) \<in> set kvs" "x = quoteString k @ CHR '':'' # refStringify v"
      by auto
    have "newline \<notin> set (refStringify v)"
      using JObj kv(1) by (auto simp: snds.simps)
    then show "newline \<notin> set x"
      unfolding kv(2) using quoteString_no_newline [of k] by (auto simp: newline_def)
  qed
  then have "newline \<notin> set (commaSep (map (\<lambda>(k, v). quoteString k @ CHR '':'' # refStringify v) kvs))"
    by (rule commaSep_no_newline)
  then show ?case by (simp add: newline_def)
qed

text \<open>
  Claim C7. The streaming rewrite splits the payload at newlines, maps each line on its
  own and joins the results with newlines; as the serialiser writes no newline, the
  output has the lines of the input, rewritten, in the same number and order. A line
  that does not start with \<open>data:\<close> is unchanged. A data line is unchanged when its
  payload is empty, is \<open>[DONE]\<close>, does not parse, or parses to a value with no top-level
  \<open>response\<close> field; otherwise it becomes \<open>data: \<close> followed by the serialised inner
  value. Of the lines \<open>event: ping\<close>, a blank line, \<open>data: {"response":{"a":1}}\<close> and
  \<open>data: [DONE]\<close> only the third changes, to \<open>data: {"a":1}\<close>.
\<close>

theorem C7_sse_rewrite:
  \<open>transformStreamingPayload p payload = join_lines (map (transformSseLine p) (split_lines payload))
   \<and> ((\<forall>v. newline \<notin> set (JSON_stringify p v)) \<longrightarrow>
         split_lines (transformStreamingPayload p payload)
           = map (transformSseLine p) (split_lines payload))
   \<and> (\<not> startsWith line ''data:'' \<longrightarrow> transformSseLine p line = line)
   \<and> (startsWith line ''data:''
        \<and> (trim (drop 5 line) = [] \<or> trim (drop 5 line) = ''[DONE]''
             \<or> JSON_parse p (trim (drop 5 line)) = None
             \<or> (\<exists>v. JSON_parse p (trim (drop 5 line)) = Some v \<and> field v ''response'' = None))
        \<longrightarrow> transformSseLine p line = line)
   \<and> (startsWith line ''data:'' \<and> trim (drop 5 line) \<noteq> [] \<and> trim (drop 5 line) \<noteq> ''[DONE]''
        \<and> JSON_parse p (trim (drop 5 line)) = Some parsed \<and> field parsed ''response'' = Some inner
        \<longrightarrow> transformSseLine p line = ''data: '' @ JSON_stringify p inner)
   \<and> (JSON_parse p ''{"response":{"a":1}}''
          = Some (JObj [(''response'', JObj [(''a'', JNum (Num 1))])])
        \<and> JSON_stringify p (JObj [(''a'', JNum (Num 1))]) = ''{"a":1}''
        \<longrightarrow> transformStreamingPayload p
              (join_lines [''event: ping'', [], ''data: {"response":{"a":1}}'', ''data: [DONE]''])
            = join_lines [''event: ping'', [], ''data: {"a":1}'', ''data: [DONE]''])\<close>
proof (intro conjI impI)
  show "transformStreamingPayload p payload = join_lines (map (transformSseLine p) (split_lines payload))"
    by (simp add: transformStreamingPayload_def)
  show "split_lines (transformStreamingPayload p payload) = map (transformSseLine p) (split_lines payload)"
    if "\<forall>v. newline \<notin> set (JSON_stringify p v)"
    using that by (rule sse_payload_lines)
  show "transformSseLine p line = line" if "\<not> startsWith line ''data:''"
    using that by (rule sse_line_other)
  show "transformSseLine p line = line"
    if "startsWith line ''data:''
        \<and> (trim (drop 5 line) = [] \<or> trim (drop 5 line) = ''[DONE]''
             \<or> JSON_parse p (trim (drop 5 line)) = None
             \<or> (\<exists>v. JSON_parse p (trim (drop 5 line)) = Some v \<and> field v ''response'' = None))"
    using that sse_line_kept [of line p] by blast
  show "transformSseLine p line = ''data: '' @ JSON_stringify p inner"
    if "startsWith line ''data:'' \<and> trim (drop 5 line) \<noteq> [] \<and> trim (drop 5 line) \<noteq> ''[DONE]''
        \<and> JSON_parse p (trim (drop 5 line)) = Some parsed \<and> field parsed ''response'' = Some inner"
    using that sse_line_unwrapped [of line p parsed inner] by blast
  show \<open>transformStreamingPayload p
              (join_lines [''event: ping'', [], ''data: {"response":{"a":1}}'', ''data: [DONE]''])
            = join_lines [''event: ping'', [], ''data: {"a":1}'', ''data: [DONE]'']\<close>
    if \<open>JSON_parse p ''{"response":{"a":1}}''
          = Some (JObj [(''response'', JObj [(''a'', JNum (Num 1))])])
        \<and> JSON_stringify p (JObj [(''a'', JNum (Num 1))]) = ''{"a":1}''\<close>
    using that sse_example [of p] by blast
qed

theorem C7_sse_rewrite_witness:
  \<open>(\<forall>v. newline \<notin> set (JSON_stringify refPlatform v))
   \<and> JSON_parse refPlatform ''{"response":{"a":1}}''
        = Some (JObj [(''response'', JObj [(''a'', JNum (Num 1))])])
   \<and> JSON_stringify refPlatform (JObj [(''a'', JNum (Num 1))]) = ''{"a":1}''
   \<and> transformStreamingPayload refPlatform
        (join_lines [''event: ping'', [], ''data: {"response":{"a":1}}'', ''data: [DONE]''])
      = join_lines [''event: ping'', [], ''data: {"a":1}'', ''data: [DONE]'']
   \<and> split_lines (transformStreamingPayload refPlatform
        (join_lines [''event: ping'', [], ''data: {"response":{"a":1}}'', ''data: [DONE]'']))
      = [''event: ping'', [], ''data: {"a":1}'', ''data: [DONE]'']
   \<and> split_lines (transformStreamingPayload refPlatform
        (join_lines [''event: ping'', [], ''data: {"response":{"a":1}}'', ''data: [DONE]'']))
      = map (transformSseLine refPlatform)
          (split_lines (join_lines [''event: ping'', [], ''data: {"response":{"a":1}}'', ''data: [DONE]'']))
   \<and> \<not> startsWith ''event: ping'' ''data:''
   \<and> transformSseLine refPlatform ''event: ping'' = ''event: ping''
   \<and> startsWith ''data: nonsense'' ''data:''
   \<and> JSON_parse refPlatform (trim (drop 5 ''data: nonsense'')) = None
   \<and> transformSseLine refPlatform ''data: nonsense'' = ''data: nonsense''
   \<and> startsWith ''data: {"response":null}'' ''data:''
   \<and> JSON_parse refPlatform (trim (drop 5 ''data: {"response":null}''))
        = Some (JObj [(''response'', JNull)])
   \<and> transformSseLine refPlatform ''data: {"response":null}'' = ''data: null''\<close>
proof -
  let ?payload = \<open>join_lines [''event: ping'', [], ''data: {"response":{"a":1}}'', ''data: [DONE]'']\<close>
  have nl: "\<forall>v. newline \<notin> set (JSON_stringify refPlatform v)"
    by (simp add: refPlatform_def refStringify_no_newline)
  have pa: \<open>JSON_parse refPlatform ''{"response":{"a":1}}''
        = Some (JObj [(''response'', JObj [(''a'', JNum (Num 1))])])\<close>
    by code_simp
  have st: \<open>JSON_stringify refPlatform (JObj [(''a'', JNum (Num 1))]) = ''{"a":1}''\<close>
    by code_simp
  have ex: \<open>transformStreamingPayload refPlatform ?payload
      = join_lines [''event: ping'', [], ''data: {"a":1}'', ''data: [DONE]'']\<close>
    using C7_sse_rewrite [of refPlatform] pa st by blast
  have ls: \<open>split_lines (transformStreamingPayload refPlatform ?payload)
      = [''event: ping'', [], ''data: {"a":1}'', ''data: [DONE]'']\<close>
  proof -
    have \<open>split_lines (join_lines [''event: ping'', [], ''data: {"a":1}'', ''data: [DONE]''])
            = [''event: ping'', [], ''data: {"a":1}'', ''data: [DONE]'']\<close>
      by code_simp
    then show ?thesis unfolding ex .
  qed
  have lm: \<open>split_lines (transformStreamingPayload refPlatform ?payload)
      = map (transformSseLine refPlatform) (split_lines ?payload)\<close>
    using C7_sse_rewrite [of refPlatform ?payload] nl by blast
  have o1: "\<not> startsWith ''event: ping'' ''data:''" by code_simp
  have o2: "transformSseLine refPlatform ''event: ping'' = ''event: ping''"
    using C7_sse_rewrite [of refPlatform _ "''event: ping''"] o1 by blast
  have k1: "startsWith ''data: nonsense'' ''data:''" by code_simp
  have k2: "JSON_parse refPlatform (trim (drop 5 ''data: nonsense'')) = None" by code_simp
  have k3: "transformSseLine refPlatform ''data: nonsense'' = ''data: nonsense''"
    using C7_sse_rewrite [of refPlatform _ "''data: nonsense''"] k1 k2 by blast
  have u1: \<open>startsWith ''data: {"response":null}'' ''data:''\<close> by code_simp
  have u2: \<open>JSON_parse refPlatform (trim (drop 5 ''data: {"response":null}''))
        = Some (JObj [(''response'', JNull)])\<close> by code_simp
  have u3: \<open>trim (drop 5 ''data: {"response":null}'') \<noteq> []
      \<and> trim (drop 5 ''data: {"response":null}'') \<noteq> ''[DONE]''\<close> by code_simp
  have u4: "field (JObj [(''response'', JNull)]) ''response'' = Some JNull" by simp
  have u5: "JSON_stringify refPlatform JNull = ''null''" by code_simp
  have u6: \<open>transformSseLine refPlatform ''data: {"response":null}'' = ''data: '' @ JSON_stringify refPlatform JNull\<close>
    using C7_sse_rewrite [of refPlatform _ \<open>''data: {"response":null}''\<close> "JObj [(''response'', JNull)]" JNull]
      u1 u2 u3 u4 by blast
  have u7: \<open>transformSseLine refPlatform ''data: {"response":null}'' = ''data: null''\<close>
    unfolding u6 u5 by simp
  show ?thesis
    using nl pa st ex ls lm o1 o2 k1 k2 k3 u1 u2 u7 by blast
qed

section \<open>Error bodies\<close>

lemma toStringJs_typeField:
  assumes "absentOrString x"
  shows "(case x of
            Some t \<Rightarrow> (if truthy t then (case toStringJs t of None \<Rightarrow> None | Some ts \<Rightarrow> Some (f (Some ts)))
                       else Some (f None))
          | None \<Rightarrow> Some (f None)) = Some (f (stringField x))"
  using assms by (auto simp: absentOrString_def stringField_def split: option.splits json.splits)

lemma errorFromWrapper_strings:
  assumes "field e ''message'' = None \<or> (\<exists>s. field e ''message'' = Some (JStr s))"
    and "absentOrString (field e ''type'')"
  shows "errorFromWrapper e =
           Some \<lparr>message = (case stringField (field e ''message'') of Some m \<Rightarrow> m | None \<Rightarrow> ''Unknown error''),
                 type = stringField (field e ''type''), code = field e ''code''\<rparr>"
proof -
  let ?msg = "(case stringField (field e ''message'') of Some m \<Rightarrow> m | None \<Rightarrow> ''Unknown error'')"
  have m: "toStringJs (case field e ''message'' of
                         Some m \<Rightarrow> (if truthy m then m else JStr ''Unknown error'')
                       | None \<Rightarrow> JStr ''Unknown error'') = Some ?msg"
    using assms(1) by (auto simp: stringField_def)
  show ?thesis
    unfolding errorFromWrapper_def m option.case
    using toStringJs_typeField [OF assms(2), of "\<lambda>t. \<lparr>message = ?msg, type = t, code = field e ''code''\<rparr>"]
    by simp
qed

lemma errorFromTopLevel_strings:
  assumes "absentOrString (field parsed ''type'')"
  shows "errorFromTopLevel parsed m =
           Some \<lparr>message = m, type = stringField (field parsed ''type''), code = field parsed ''code''\<rparr>"
  unfolding errorFromTopLevel_def
  using toStringJs_typeField [OF assms, of "\<lambda>t. \<lparr>message = m, type = t, code = field parsed ''code''\<rparr>"]
  by simp

lemma parseErrorBody_not_json:
  "JSON_parse p text = None \<Longrightarrow>
     parseErrorBody p text
       = Some \<lparr>message = (if text = [] then ''Unknown error'' else text), type = None, code = None\<rparr>"
  by (simp add: parseErrorBody_def orUnknown_def)

lemma parseErrorBody_nested:
  assumes "JSON_parse p text = Some parsed" and "field parsed ''error'' = Some e"
    and "isObjectType e"
    and "field e ''message'' = None \<or> (\<exists>s. field e ''message'' = Some (JStr s))"
    and "absentOrString (field e ''type'')"
  shows "parseErrorBody p text =
           Some \<lparr>message = (case stringField (field e ''message'') of Some m \<Rightarrow> m | None \<Rightarrow> ''Unknown error''),
                 type = stringField (field e ''type''), code = field e ''code''\<rparr>"
proof -
  have nn: "parsed \<noteq> JNull" using assms(2) by auto
  have tr: "truthy e" using assms(3) by (cases e) auto
  show ?thesis
    unfolding parseErrorBody_def Let_def
    using assms(1,2,3) nn tr errorFromWrapper_strings [OF assms(4,5)] by simp
qed

lemma parseErrorBody_top_level:
  assumes "JSON_parse p text = Some parsed" and "\<not> hasErrorObject parsed"
    and "field parsed ''message'' = Some (JStr m)" and "m \<noteq> []"
    and "absentOrString (field parsed ''type'')"
  shows "parseErrorBody p text =
           Some \<lparr>message = m, type = stringField (field parsed ''type''), code = field parsed ''code''\<rparr>"
proof -
  have nn: "parsed \<noteq> JNull" using assms(3) by auto
  show ?thesis
    unfolding parseErrorBody_def Let_def
    using assms(1,2,3,4) nn errorFromTopLevel_strings [OF assms(5), of m]
    by (auto simp: hasErrorObject_def split: option.splits)
qed

lemma parseErrorBody_neither:
  assumes "JSON_parse p text = Some parsed" and "parsed \<noteq> JNull" and "\<not> hasErrorObject parsed"
    and "stringField (field parsed ''message'') = None"
  shows "parseErrorBody p text = None"
  unfolding parseErrorBody_def Let_def
  using assms
  by (auto simp: hasErrorObject_def stringField_def split: option.splits json.splits if_splits)

text \<open>
  Claim C5, as stated, lets the raw text become the message whenever the text has
  neither a nested error object nor a top-level string message. The text \<open>{}\<close> is valid
  JSON with neither, and the parse gives no error at all.
\<close>

theorem C5_error_body_counterexample:
  "JSON_parse refPlatform ''{}'' = Some (JObj [])
   \<and> parseErrorBody refPlatform ''{}'' = None
   \<and> parseErrorBody refPlatform ''{}'' \<noteq> Some \<lparr>message = ''{}'', type = None, code = None\<rparr>"
  by code_simp

text \<open>
  Claim C5, amended. A text that does not parse as JSON gives the text as the message,
  and \<open>Unknown error\<close> when the text is empty. A text that parses to a value with a
  nested error object gives the message of that object when it is a non-empty string,
  \<open>Unknown error\<close> when it is absent or empty, the type when it is a non-empty string,
  and the code as it is. Otherwise a non-empty string message at the top level gives
  the top-level message, type and code. A text that parses to a value other than
  \<open>null\<close> with neither gives no error. The text \<open>boom\<close> gives the message \<open>boom\<close>; the text
  \<open>{"error":{"message":"bad","code":400}}\<close> gives the message \<open>bad\<close> and the code 400.
\<close>

theorem C5_error_body:
  \<open>(JSON_parse p text = None \<longrightarrow>
      parseErrorBody p text
        = Some \<lparr>message = (if text = [] then ''Unknown error'' else text), type = None, code = None\<rparr>)
   \<and> (JSON_parse p text = Some parsed \<and> field parsed ''error'' = Some e \<and> isObjectType e
        \<and> (field e ''message'' = None \<or> (\<exists>s. field e ''message'' = Some (JStr s)))
        \<and> absentOrString (field e ''type'') \<longrightarrow>
      parseErrorBody p text
        = Some \<lparr>message = (case stringField (field e ''message'') of
                             Some m \<Rightarrow> m | None \<Rightarrow> ''Unknown error''),
                 type = stringField (field e ''type''), code = field e ''code''\<rparr>)
   \<and> (JSON_parse p text = Some parsed \<and> \<not> hasErrorObject parsed
        \<and> field parsed ''message'' = Some (JStr m) \<and> m \<noteq> []
        \<and> absentOrString (field parsed ''type'') \<longrightarrow>
      parseErrorBody p text
        = Some \<lparr>message = m, type = stringField (field parsed ''type''), code = field parsed ''code''\<rparr>)
   \<and> (JSON_parse p text = Some parsed \<and> parsed \<noteq> JNull \<and> \<not> hasErrorObject parsed
        \<and> stringField (field parsed ''message'') = None \<longrightarrow>
      parseErrorBody p text = None)
   \<and> (JSON_parse p ''boom'' = None \<longrightarrow>
      parseErrorBody p ''boom'' = Some \<lparr>message = ''boom'', type = None, code = None\<rparr>)
   \<and> (JSON_parse p ''{"error":{"message":"bad","code":400}}''
         = Some (JObj [(''error'', JObj [(''message'', JStr ''bad''), (''code'', JNum (Num 400))])]) \<longrightarrow>
      parseErrorBody p ''{"error":{"message":"bad","code":400}}''
        = Some \<lparr>message = ''bad'', type = None, code = Some (JNum (Num 400))\<rparr>)\<close>
proof (intro conjI impI)
  show "parseErrorBody p text
        = Some \<lparr>message = (if text = [] then ''Unknown error'' else text), type = None, code = None\<rparr>"
    if "JSON_parse p text = None"
    using that by (rule parseErrorBody_not_json)
  show "parseErrorBody p text
        = Some \<lparr>message = (case stringField (field e ''message'') of
                             Some m \<Rightarrow> m | None \<Rightarrow> ''Unknown error''),
                 type = stringField (field e ''type''), code = field e ''code''\<rparr>"
    if "JSON_parse p text = Some parsed \<and> field parsed ''error'' = Some e \<and> isObjectType e
        \<and> (field e ''message'' = None \<or> (\<exists>s. field e ''message'' = Some (JStr s)))
        \<and> absentOrString (field e ''type'')"
    using that parseErrorBody_nested [of p "text" parsed e] by blast
  show "parseErrorBody p text
        = Some \<lparr>message = m, type = stringField (field parsed ''type''), code = field parsed ''code''\<rparr>"
    if "JSON_parse p text = Some parsed \<and> \<not> hasErrorObject parsed
        \<and> field parsed ''message'' = Some (JStr m) \<and> m \<noteq> []
        \<and> absentOrString (field parsed ''type'')"
    using that parseErrorBody_top_level [of p "text" parsed m] by blast
  show "parseErrorBody p text = None"
    if "JSON_parse p text = Some parsed \<and> parsed \<noteq> JNull \<and> \<not> hasErrorObject parsed
        \<and> stringField (field parsed ''message'') = None"
    using that parseErrorBody_neither [of p "text" parsed] by blast
  show "parseErrorBody p ''boom'' = Some \<lparr>message = ''boom'', type = None, code = None\<rparr>"
    if "JSON_parse p ''boom'' = None"
    using parseErrorBody_not_json [OF that] by simp
  show \<open>parseErrorBody p ''{"error":{"message":"bad","code":400}}''
        = Some \<lparr>message = ''bad'', type = None, code = Some (JNum (Num 400))\<rparr>\<close>
    if pa: \<open>JSON_parse p ''{"error":{"message":"bad","code":400}}''
         = Some (JObj [(''error'', JObj [(''message'', JStr ''bad''), (''code'', JNum (Num 400))])])\<close>
  proof -
    let ?e = "JObj [(''message'', JStr ''bad''), (''code'', JNum (Num 400))]"
    have \<open>parseErrorBody p ''{"error":{"message":"bad","code":400}}''
        = Some \<lparr>message = (case stringField (field ?e ''message'') of
                             Some m \<Rightarrow> m | None \<Rightarrow> ''Unknown error''),
                 type = stringField (field ?e ''type''), code = field ?e ''code''\<rparr>\<close>
      by (rule parseErrorBody_nested [OF pa]) (simp_all add: absentOrString_def)
    then show ?thesis by (simp add: stringField_def)
  qed
qed

theorem C5_error_body_witness:
  \<open>JSON_parse refPlatform ''boom'' = None
   \<and> parseErrorBody refPlatform ''boom'' = Some \<lparr>message = ''boom'', type = None, code = None\<rparr>
   \<and> JSON_parse refPlatform ''{"error":{"message":"bad","code":400}}''
        = Some (JObj [(''error'', JObj [(''message'', JStr ''bad''), (''code'', JNum (Num 400))])])
   \<and> parseErrorBody refPlatform ''{"error":{"message":"bad","code":400}}''
        = Some \<lparr>message = ''bad'', type = None, code = Some (JNum (Num 400))\<rparr>
   \<and> JSON_parse refPlatform ''{"message":"late","type":"quota","code":"E7"}''
        = Some (JObj [(''message'', JStr ''late''), (''type'', JStr ''quota''), (''code'', JStr ''E7'')])
   \<and> parseErrorBody refPlatform ''{"message":"late","type":"quota","code":"E7"}''
        = Some \<lparr>message = ''late'', type = Some ''quota'', code = Some (JStr ''E7'')\<rparr>
   \<and> JSON_parse refPlatform ''{"status":"down"}'' = Some (JObj [(''status'', JStr ''down'')])
   \<and> parseErrorBody refPlatform ''{"status":"down"}'' = None\<close>
proof -
  have a1: "JSON_parse refPlatform ''boom'' = None" by code_simp
  have a2: "parseErrorBody refPlatform ''boom'' = Some \<lparr>message = ''boom'', type = None, code = None\<rparr>"
    using C5_error_body [of refPlatform] a1 by blast
  have b1: \<open>JSON_parse refPlatform ''{"error":{"message":"bad","code":400}}''
        = Some (JObj [(''error'', JObj [(''message'', JStr ''bad''), (''code'', JNum (Num 400))])])\<close>
    by code_simp
  have b2: \<open>parseErrorBody refPlatform ''{"error":{"message":"bad","code":400}}''
        = Some \<lparr>message = ''bad'', type = None, code = Some (JNum (Num 400))\<rparr>\<close>
    using C5_error_body [of refPlatform] b1 by blast
  let ?t = "JObj [(''message'', JStr ''late''), (''type'', JStr ''quota''), (''code'', JStr ''E7'')]"
  have c1: \<open>JSON_parse refPlatform ''{"message":"late","type":"quota","code":"E7"}'' = Some ?t\<close>
    by code_simp
  have c2: "\<not> hasErrorObject ?t \<and> field ?t ''message'' = Some (JStr ''late'') \<and> ''late'' \<noteq> []
      \<and> absentOrString (field ?t ''type'')"
    by (simp add: hasErrorObject_def absentOrString_def)
  have c3: \<open>parseErrorBody refPlatform ''{"message":"late","type":"quota","code":"E7"}''
        = Some \<lparr>message = ''late'', type = stringField (field ?t ''type''), code = field ?t ''code''\<rparr>\<close>
    using C5_error_body [of refPlatform \<open>''{"message":"late","type":"quota","code":"E7"}''\<close> ?t _ "''late''"]
      c1 c2 by blast
  have c4: \<open>parseErrorBody refPlatform ''{"message":"late","type":"quota","code":"E7"}''
        = Some \<lparr>message = ''late'', type = Some ''quota'', code = Some (JStr ''E7'')\<rparr>\<close>
    unfolding c3 by (simp add: stringField_def)
  let ?n = "JObj [(''status'', JStr ''down'')]"
  have d1: \<open>JSON_parse refPlatform ''{"status":"down"}'' = Some ?n\<close> by code_simp
  have d2: "?n \<noteq> JNull \<and> \<not> hasErrorObject ?n \<and> stringField (field ?n ''message'') = None"
    by (simp add: hasErrorObject_def stringField_def)
  have d3: \<open>parseErrorBody refPlatform ''{"status":"down"}'' = None\<close>
    using C5_error_body [of refPlatform \<open>''{"status":"down"}''\<close> ?n] d1 d2 by blast
  show ?thesis using a1 a2 b1 b2 c1 c4 d1 d3 by blast
qed

section \<open>Retry-after\<close>




lemma lower_content_type: "map toLower ''content-type'' = ''content-type''"
  by code_simp






















section \<open>Endpoint failover\<close>

lemma isRetryableError_iff:
  "isRetryableError s \<longleftrightarrow> s = 0 \<or> s = 429 \<or> (500 \<le> s \<and> s < 600)"
  by (simp add: isRetryableError_def)

lemma retryable_not_ok: "isRetryableError (status r) \<Longrightarrow> \<not> ok r"
  by (auto simp: isRetryableError_iff ok_def)


lemma attemptFetch_cases:
  "attemptFetch p c k i endpoint u init tok pid mn =
     (case buildAttempt p c k endpoint u init tok pid mn of
        Inl e \<Rightarrow> (init, NotIssued e, None)
      | Inr (init', req) \<Rightarrow>
          (init', Issued req,
           (case network c i req of
              Inl e \<Rightarrow> None
            | Inr r \<Rightarrow> (if isRetryableError (status r) then None else Some r))))"
  unfolding attemptFetch_def
  by (auto split: sum.splits prod.splits dest: retryable_not_ok)

lemma attemptFetch_none_iff:
  "snd (snd (attemptFetch p c k i endpoint u init tok pid mn)) = None \<longleftrightarrow>
     (case buildAttempt p c k endpoint u init tok pid mn of
        Inl e \<Rightarrow> True
      | Inr (init', req) \<Rightarrow> retryableOutcome (network c i req))"
  unfolding attemptFetch_cases
  by (auto simp: retryableOutcome_def isRetryableError_iff split: sum.splits prod.splits)


lemma attemptFetch_attempt:
  assumes "attemptFetch p c k i endpoint u init tok pid mn = (init', a, res)"
  shows "(res = None \<longrightarrow> attemptRetryable c i a)
       \<and> (\<forall>r. res = Some r \<longrightarrow> (\<exists>req. a = Issued req \<and> network c i req = Inr r)
                \<and> \<not> retryableOutcome (Inr r))"
  using assms unfolding attemptFetch_cases
  by (auto simp: attemptRetryable_def retryableOutcome_def isRetryableError_iff
           split: sum.splits prod.splits if_splits)

lemma tryEndpoints_result:
  assumes "tryEndpoints p c k i es u init tok pid mn = (as, res)"
  shows "length as \<le> length es
       \<and> (\<forall>j < length as. Suc j < length as \<or> res = None \<longrightarrow> attemptRetryable c (i + j) (as ! j))
       \<and> (res = None \<longrightarrow> length as = length es)
       \<and> (\<forall>r. res = Some r \<longrightarrow> as \<noteq> []
             \<and> (\<exists>req. last as = Issued req \<and> network c (i + length as - 1) req = Inr r)
             \<and> \<not> retryableOutcome (Inr r))"
  using assms
proof (induction es arbitrary: i init as res)
  case Nil
  then show ?case by simp
next
  case (Cons e es)
  obtain init' a r1 where af: "attemptFetch p c k i e u init tok pid mn = (init', a, r1)"
    by (cases "attemptFetch p c k i e u init tok pid mn") auto
  note att = attemptFetch_attempt [OF af]
  show ?case
  proof (cases r1)
    case (Some r)
    with af Cons.prems have eq: "as = [a]" "res = Some r" by auto
    show ?thesis unfolding eq using att Some by auto
  next
    case None
    obtain as' res' where rec: "tryEndpoints p c k (Suc i) es u init' tok pid mn = (as', res')"
      by (cases "tryEndpoints p c k (Suc i) es u init' tok pid mn") auto
    with af None Cons.prems have eq: "as = a # as'" "res = res'" by auto
    note ih = Cons.IH [OF rec]
    have a0: "attemptRetryable c i a" using att None by simp
    have len: "length as \<le> length (e # es)" unfolding eq using ih by simp
    have mid: "\<forall>j < length as. Suc j < length as \<or> res = None \<longrightarrow> attemptRetryable c (i + j) (as ! j)"
    proof (intro allI impI)
      fix j assume j: "j < length as" and c: "Suc j < length as \<or> res = None"
      show "attemptRetryable c (i + j) (as ! j)"
      proof (cases j)
        case 0
        then show ?thesis unfolding eq using a0 by simp
      next
        case (Suc j')
        then have "j' < length as'" using j unfolding eq by simp
        moreover have "Suc j' < length as' \<or> res' = None" using c Suc unfolding eq by auto
        ultimately have "attemptRetryable c (Suc i + j') (as' ! j')" using ih by blast
        then show ?thesis unfolding eq Suc by simp
      qed
    qed
    have none: "res = None \<longrightarrow> length as = length (e # es)" unfolding eq using ih by simp
    have some: "\<forall>r. res = Some r \<longrightarrow> as \<noteq> []
             \<and> (\<exists>req. last as = Issued req \<and> network c (i + length as - 1) req = Inr r)
             \<and> \<not> retryableOutcome (Inr r)"
    proof (intro allI impI)
      fix r assume "res = Some r"
      then have r: "res' = Some r" unfolding eq .
      then have ne: "as' \<noteq> []" and nr: "\<not> retryableOutcome (Inr r)" using ih by auto
      obtain req where req: "last as' = Issued req" "network c (Suc i + length as' - 1) req = Inr r"
        using ih r by blast
      have "last as = Issued req" unfolding eq using ne req(1) by simp
      moreover have "network c (i + length as - 1) req = Inr r"
        unfolding eq using req(2) ne by simp
      ultimately show "as \<noteq> []
             \<and> (\<exists>req. last as = Issued req \<and> network c (i + length as - 1) req = Inr r)
             \<and> \<not> retryableOutcome (Inr r)"
        unfolding eq using nr by auto
    qed
    show ?thesis using len mid none some by blast
  qed
qed

lemma tryEndpoints_all_retryable:
  assumes "\<forall>j req. i \<le> j \<and> j < i + length es \<longrightarrow> retryableOutcome (network c j req)"
  shows "\<exists>as. tryEndpoints p c k i es u init tok pid mn = (as, None) \<and> length as = length es"
  using assms
proof (induction es arbitrary: i init)
  case Nil
  then show ?case by simp
next
  case (Cons e es)
  have r0: "retryableOutcome (network c i req)" for req
    using Cons.prems by simp
  have n0: "snd (snd (attemptFetch p c k i e u init tok pid mn)) = None"
    unfolding attemptFetch_none_iff using r0 by (auto split: sum.splits prod.splits)
  then obtain init' a where af: "attemptFetch p c k i e u init tok pid mn = (init', a, None)"
    by (cases "attemptFetch p c k i e u init tok pid mn") auto
  have "\<forall>j req. Suc i \<le> j \<and> j < Suc i + length es \<longrightarrow> retryableOutcome (network c j req)"
    using Cons.prems by simp
  then obtain as' where "tryEndpoints p c k (Suc i) es u init' tok pid mn = (as', None)"
      "length as' = length es"
    using Cons.IH by blast
  with af show ?case by simp
qed

text \<open>The interceptor, once the credentials are read and the token is fresh.\<close>

lemma antigravityFetch_ready:
  assumes "authReady c providerId st"
  shows "\<exists>st' tokens pid.
           antigravityFetch p c k providerId st u init =
             (case tryEndpoints p c k 0 (take (maxEndpoints k) (ANTIGRAVITY_ENDPOINT_FALLBACKS k))
                     u init tokens pid (bodyModelName p init) of
                (as, Some resp) \<Rightarrow>
                  (st', as,
                   transformResponseWithThinking p c resp
                     (case orElse (bodyModelName p init) (Some []) of Some m \<Rightarrow> m | None \<Rightarrow> []))
              | (as, None) \<Rightarrow> (st', as, Inr (allEndpointsFailed p (maxEndpoints k))))
           \<and> pid = resolvedProject c st'"
proof -
  obtain auth where auth: "getAuth c = Inr auth"
    using assms by (auto simp: authReady_def split: sum.splits)
  let ?parts = "parseStoredToken c (the (refresh auth))"
  have tr: "truthyStr (access auth)" "truthyStr (refresh auth)"
    and rf: "snd (refreshIfExpired c providerId ?parts (seedTokens c st auth ?parts)) = None"
    using assms auth by (auto simp: authReady_def)
  obtain tokens where tk: "refreshIfExpired c providerId ?parts (seedTokens c st auth ?parts) = (tokens, None)"
    using rf by (cases "refreshIfExpired c providerId ?parts (seedTokens c st auth ?parts)") auto
  let ?cp = "(if \<not> truthyStr (cachedProjectId st) then
               (case orElse (fetchProjectContext c (access_token tokens)) (Some []) of
                  Some s \<Rightarrow> s | None \<Rightarrow> [])
             else the (cachedProjectId st))"
  let ?st' = "\<lparr>cachedTokens = Some tokens, cachedProjectId = Some ?cp\<rparr>"
  let ?pid = "(case orElse (projectId ?parts) (Some ?cp) of Some s \<Rightarrow> s | None \<Rightarrow> [])"
  have pid: "?pid = resolvedProject c ?st'"
    using auth by (simp add: resolvedProject_def)
  have "antigravityFetch p c k providerId st u init =
             (case tryEndpoints p c k 0 (take (maxEndpoints k) (ANTIGRAVITY_ENDPOINT_FALLBACKS k))
                     u init (access_token tokens) ?pid (bodyModelName p init) of
                (as, Some resp) \<Rightarrow>
                  (?st', as,
                   transformResponseWithThinking p c resp
                     (case orElse (bodyModelName p init) (Some []) of Some m \<Rightarrow> m | None \<Rightarrow> []))
              | (as, None) \<Rightarrow> (?st', as, Inr (allEndpointsFailed p (maxEndpoints k))))"
    unfolding antigravityFetch_def Let_def using auth tr tk
    by (simp split: prod.splits option.splits)
  with pid show ?thesis by blast
qed

lemma antigravityFetch_trace:
  assumes "authReady c providerId st"
    and "antigravityFetch p c k providerId st u init = (st', as, result)"
  shows "length as \<le> maxEndpoints k
       \<and> (\<forall>j < length as. Suc j < length as \<longrightarrow> attemptRetryable c j (as ! j))
       \<and> ((length as = maxEndpoints k \<and> (\<forall>j < length as. attemptRetryable c j (as ! j))
            \<and> result = Inr (allEndpointsFailed p (maxEndpoints k)))
          \<or> (\<exists>req r. as \<noteq> [] \<and> last as = Issued req \<and> network c (length as - 1) req = Inr r
                \<and> \<not> retryableOutcome (Inr r)
                \<and> result = transformResponseWithThinking p c r
                    (case bodyModelName p init of Some m \<Rightarrow> m | None \<Rightarrow> [])))"
proof -
  let ?es = "take (maxEndpoints k) (ANTIGRAVITY_ENDPOINT_FALLBACKS k)"
  have les: "length ?es = maxEndpoints k" by (simp add: maxEndpoints_def)
  obtain st1 tokens pid where f:
    "antigravityFetch p c k providerId st u init =
             (case tryEndpoints p c k 0 ?es u init tokens pid (bodyModelName p init) of
                (as, Some resp) \<Rightarrow>
                  (st1, as,
                   transformResponseWithThinking p c resp
                     (case orElse (bodyModelName p init) (Some []) of Some m \<Rightarrow> m | None \<Rightarrow> []))
              | (as, None) \<Rightarrow> (st1, as, Inr (allEndpointsFailed p (maxEndpoints k))))"
    using antigravityFetch_ready [OF assms(1), of p k u init] by blast
  obtain as1 res where t: "tryEndpoints p c k 0 ?es u init tokens pid (bodyModelName p init) = (as1, res)"
    by (cases "tryEndpoints p c k 0 ?es u init tokens pid (bodyModelName p init)") auto
  note tr = tryEndpoints_result [OF t]
  have mn: "(case orElse (bodyModelName p init) (Some []) of Some m \<Rightarrow> m | None \<Rightarrow> [])
              = (case bodyModelName p init of Some m \<Rightarrow> m | None \<Rightarrow> [])"
    by (cases "bodyModelName p init") (auto simp: orElse_def)
  show ?thesis
  proof (cases res)
    case None
    have eq: "as = as1" "result = Inr (allEndpointsFailed p (maxEndpoints k))"
      using f t None assms(2) by auto
    show ?thesis unfolding eq using tr None les by auto
  next
    case (Some r)
    have eq: "as = as1" "result = transformResponseWithThinking p c r
                    (case bodyModelName p init of Some m \<Rightarrow> m | None \<Rightarrow> [])"
      using f t Some assms(2) mn by auto
    have "as1 \<noteq> []" "\<not> retryableOutcome (Inr r)" using tr Some by auto
    moreover obtain req where "last as1 = Issued req" "network c (0 + length as1 - 1) req = Inr r"
      using tr Some by blast
    ultimately show ?thesis unfolding eq using tr les Some by auto
  qed
qed


text \<open>
  Claim C2. In a call whose every attempt has a retryable outcome the interceptor makes
  \<open>min (length of the endpoint list) 3\<close> attempts, of which at most that many issue a
  request, and returns, without an exception, a response with status 503 whose body is
  the serialised object \<open>{error: {message, type, code}}\<close> with the message
  \<open>All Antigravity endpoints failed after N attempts\<close>, \<open>N\<close> the number of attempts made,
  the type \<open>endpoint_failure\<close> and the code \<open>all_endpoints_failed\<close>.
\<close>

theorem C2_endpoints_exhausted:
  "(authReady c providerId st
      \<and> antigravityFetch p c k providerId st u init = (st', as, result)
      \<and> (\<forall>j < length as. attemptRetryable c j (as ! j)) \<longrightarrow>
    result = Inr (allEndpointsFailed p (length as))
    \<and> length as = min (length (ANTIGRAVITY_ENDPOINT_FALLBACKS k)) 3
    \<and> length (filter isIssued as) \<le> min (length (ANTIGRAVITY_ENDPOINT_FALLBACKS k)) 3)
   \<and> status (allEndpointsFailed p n) = 503
   \<and> resp_body (allEndpointsFailed p n) =
       Inr (JSON_stringify p
         (JObj [(''error'',
                 JObj [(''message'', JStr (''All Antigravity endpoints failed after '' @ showNat n @ '' attempts'')),
                       (''type'', JStr ''endpoint_failure''),
                       (''code'', JStr ''all_endpoints_failed'')])]))"
proof (intro conjI impI)
  assume h: "authReady c providerId st
      \<and> antigravityFetch p c k providerId st u init = (st', as, result)
      \<and> (\<forall>j < length as. attemptRetryable c j (as ! j))"
  note tr = antigravityFetch_trace [of c providerId st p k u init st' as result]
  have no_terminal: "\<not> (\<exists>req r. as \<noteq> [] \<and> last as = Issued req \<and> network c (length as - 1) req = Inr r
                \<and> \<not> retryableOutcome (Inr r))"
  proof
    assume "\<exists>req r. as \<noteq> [] \<and> last as = Issued req \<and> network c (length as - 1) req = Inr r
                \<and> \<not> retryableOutcome (Inr r)"
    then obtain req r where x: "as \<noteq> []" "last as = Issued req" "network c (length as - 1) req = Inr r"
        "\<not> retryableOutcome (Inr r)" by blast
    have "length as - 1 < length as" using x(1) by (cases as) auto
    then have "attemptRetryable c (length as - 1) (as ! (length as - 1))" using h by blast
    moreover have "as ! (length as - 1) = last as" using x(1) by (simp add: last_conv_nth)
    ultimately show False using x by (simp add: attemptRetryable_def)
  qed
  have all: "length as = maxEndpoints k \<and> result = Inr (allEndpointsFailed p (maxEndpoints k))"
    using tr h no_terminal by blast
  show "result = Inr (allEndpointsFailed p (length as))" using all by simp
  show "length as = min (length (ANTIGRAVITY_ENDPOINT_FALLBACKS k)) 3"
    using all by (simp add: maxEndpoints_def)
  have "length (filter isIssued as) \<le> length as" by simp
  then show "length (filter isIssued as) \<le> min (length (ANTIGRAVITY_ENDPOINT_FALLBACKS k)) 3"
    using all by (simp add: maxEndpoints_def)
next
  show "status (allEndpointsFailed p n) = 503" by (simp add: allEndpointsFailed_def)
  show "resp_body (allEndpointsFailed p n) =
       Inr (JSON_stringify p
         (JObj [(''error'',
                 JObj [(''message'', JStr (''All Antigravity endpoints failed after '' @ showNat n @ '' attempts'')),
                       (''type'', JStr ''endpoint_failure''),
                       (''code'', JStr ''all_endpoints_failed'')])]))"
    by (simp add: allEndpointsFailed_def)
qed

theorem C2_endpoints_exhausted_witness:
  \<open>authReady (exampleCollaborators rateLimitedNetwork) ''google'' emptyCache
   \<and> (\<exists>st' as.
         antigravityFetch refPlatform (exampleCollaborators rateLimitedNetwork) exampleConstants
             ''google'' emptyCache exampleUrl exampleInit
           = (st', as, Inr (allEndpointsFailed refPlatform 3))
         \<and> length as = 3
         \<and> (\<forall>j < length as. attemptRetryable (exampleCollaborators rateLimitedNetwork) j (as ! j))
         \<and> length (filter isIssued as) = 3)
   \<and> status (allEndpointsFailed refPlatform 3) = 503
   \<and> resp_body (allEndpointsFailed refPlatform 3)
       = Inr ''{"error":{"message":"All Antigravity endpoints failed after 3 attempts","type":"endpoint_failure","code":"all_endpoints_failed"}}''\<close>
proof -
  let ?c = "exampleCollaborators rateLimitedNetwork"
  obtain st' as result where run:
    "antigravityFetch refPlatform ?c exampleConstants ''google'' emptyCache exampleUrl exampleInit
       = (st', as, result)"
    by (cases "antigravityFetch refPlatform ?c exampleConstants ''google'' emptyCache exampleUrl exampleInit")
       auto
  have ready: "authReady ?c ''google'' emptyCache" by code_simp
  have len: "length (fst (snd (antigravityFetch refPlatform ?c exampleConstants ''google'' emptyCache
      exampleUrl exampleInit))) = 3"
    by code_simp
  have iss: "length (filter isIssued (fst (snd (antigravityFetch refPlatform ?c exampleConstants ''google''
      emptyCache exampleUrl exampleInit)))) = 3"
    by code_simp
  have ret: "list_all (\<lambda>(j, a). attemptRetryable ?c j a)
      (zip [0 ..< 3] (fst (snd (antigravityFetch refPlatform ?c exampleConstants ''google'' emptyCache
         exampleUrl exampleInit))))"
    by code_simp
  have l3: "length as = 3" using len run by simp
  have i3: "length (filter isIssued as) = 3" using iss run by simp
  have r3: "\<forall>j < length as. attemptRetryable ?c j (as ! j)"
  proof (intro allI impI)
    fix j assume j: "j < length as"
    have "list_all (\<lambda>(j, a). attemptRetryable ?c j a) (zip [0 ..< 3] as)" using ret run by simp
    then have "\<forall>x \<in> set (zip [0 ..< 3] as). (\<lambda>(j, a). attemptRetryable ?c j a) x"
      by (simp add: list_all_iff)
    moreover have "(j, as ! j) \<in> set (zip [0 ..< 3] as)"
      using j l3 by (auto simp: set_zip intro!: exI [of _ j])
    ultimately show "attemptRetryable ?c j (as ! j)" by blast
  qed
  have res: "result = Inr (allEndpointsFailed refPlatform (length as))"
    using C2_endpoints_exhausted [of ?c "''google''" emptyCache refPlatform exampleConstants
        exampleUrl exampleInit st' as result] ready run r3 by blast
  have ex: "\<exists>st' as.
         antigravityFetch refPlatform ?c exampleConstants ''google'' emptyCache exampleUrl exampleInit
           = (st', as, Inr (allEndpointsFailed refPlatform 3))
         \<and> length as = 3
         \<and> (\<forall>j < length as. attemptRetryable ?c j (as ! j))
         \<and> length (filter isIssued as) = 3"
    using run res l3 i3 r3 by auto
  have s: "status (allEndpointsFailed refPlatform 3) = 503"
    using C2_endpoints_exhausted [of ?c "''google''" emptyCache refPlatform exampleConstants
        exampleUrl exampleInit st' as result 3] by blast
  have b: \<open>resp_body (allEndpointsFailed refPlatform 3)
       = Inr ''{"error":{"message":"All Antigravity endpoints failed after 3 attempts","type":"endpoint_failure","code":"all_endpoints_failed"}}''\<close>
    by code_simp
  show ?thesis using ready ex s b by blast
qed



text \<open>
  Claim C1 fails on the code. The credentials are present and the token is not expired;
  the first endpoint answers 400 with an error body whose \<open>details\<close> array holds \<open>null\<close>.
  The response is not retryable, so it is transformed; the search for the RetryInfo
  entry reads \<open>@type\<close> of \<open>null\<close>, and the TypeError leaves the interceptor. So does
  the error of a body that cannot be read, when the response is an error response.
\<close>

theorem C1_exception_escapes:
  "authReady (exampleCollaborators nullDetailNetwork) ''google'' emptyCache
   \<and> snd (snd (antigravityFetch refPlatform (exampleCollaborators nullDetailNetwork)
        exampleConstants ''google'' emptyCache exampleUrl exampleInit))
       = Inl (TypeError ''Cannot read properties of null'')
   \<and> authReady (exampleCollaborators brokenBodyNetwork) ''google'' emptyCache
   \<and> snd (snd (antigravityFetch refPlatform (exampleCollaborators brokenBodyNetwork)
        exampleConstants ''google'' emptyCache exampleUrl exampleInit))
       = Inl (TypeError ''terminated'')"
  by code_simp

theorem C1_exception_escapes_witness:
  "(\<forall>resp. snd (snd (antigravityFetch refPlatform (exampleCollaborators nullDetailNetwork)
        exampleConstants ''google'' emptyCache exampleUrl exampleInit)) \<noteq> Inr resp)
   \<and> snd (snd (antigravityFetch refPlatform (exampleCollaborators nullDetailNetwork)
        exampleConstants ''google'' emptyCache exampleUrl exampleInit))
       \<noteq> Inl (Error ''Antigravity: No authentication tokens available'')
   \<and> (\<forall>e. snd (snd (antigravityFetch refPlatform (exampleCollaborators nullDetailNetwork)
        exampleConstants ''google'' emptyCache exampleUrl exampleInit)) \<noteq> Inl (refreshFailed e))"
  using C1_exception_escapes by (simp add: refreshFailed_def)

section \<open>A body that does not parse\<close>









end
